theory Spec2Isabelle
  imports Main "HOL-Library.Word"
begin

section \<open>The NLP microservice: data model\<close>

text \<open>
  The service (\<^verbatim>\<open>src/server/nlp_microservice.py\<close>) is a flat table of request handlers.
  Every handler calls pre-trained models and library routines and wraps the calls in
  \<^verbatim>\<open>try: ... except Exception as e: return {"error": str(e)}, 500\<close>.
  The libraries are not part of the repository: what they return or raise on a given
  argument is a parameter of the model (the record \<open>env\<close> below). What the handlers do
  with those outcomes (the order of the calls, the exceptions caught, the temporary files
  created and removed, the value returned) is translated from the source.

  Python values that reach a response are \<open>pyval\<close>. A Python float is carried as its
  IEEE-754 binary64 bit pattern and a NumPy float32 as its binary32 bit pattern; no
  arithmetic is performed on either by the model, which only reads the comparison
  \<^verbatim>\<open>norm > 0\<close> off the bit pattern.
\<close>

type_synonym bytes = "char list"
type_synonym pyfloat = "64 word"
type_synonym npfloat = "32 word"
type_synonym ndarray = "npfloat list"

datatype pyval =
    PNone
  | PBool bool
  | PInt int
  | PFloat pyfloat
  | PStr string
  | PList "pyval list"
  | PTuple "pyval list"
  | PDict "(string \<times> pyval) list"

type_synonym pydict = "(string \<times> pyval) list"

text \<open>
  An exception object: only instances of \<^verbatim>\<open>Exception\<close> are modelled (what
  \<^verbatim>\<open>except Exception\<close> catches), each with the text \<^verbatim>\<open>str(e)\<close> gives.
\<close>

datatype exn = Exception string

fun str_exn :: "exn \<Rightarrow> string" where
  "str_exn (Exception msg) = msg"

definition ValueError :: "string \<Rightarrow> exn" where
  "ValueError msg = Exception msg"

definition IndexError :: "string \<Rightarrow> exn" where
  "IndexError msg = Exception msg"

text \<open>\<^verbatim>\<open>str(KeyError(k))\<close> is the \<^verbatim>\<open>repr\<close> of the key.\<close>

definition KeyError :: "string \<Rightarrow> exn" where
  "KeyError k = Exception ([CHR 0x27] @ k @ [CHR 0x27])"

definition FileNotFoundError :: "string \<Rightarrow> exn" where
  "FileNotFoundError msg = Exception msg"

subsection \<open>Requests\<close>

text \<open>
  \<^verbatim>\<open>class TextRequest(BaseModel): text: str; type: Optional[str] = None; context: Optional[str] = None\<close>
  and \<^verbatim>\<open>class EmbedRequest(BaseModel): texts: list[str]\<close>. A raw request is the body
  and the headers as the ASGI server delivers them (names in lower case, values decoded
  as Latin-1, so that one \<open>char\<close> is one character of the Python string).
\<close>

record TextRequest =
  req_text :: string
  req_type :: "string option"
  req_context :: "string option"

record EmbedRequest =
  texts :: "string list"

record Request =
  req_body :: bytes
  req_headers :: "(string \<times> string) list"

text \<open>\<^verbatim>\<open>request.headers.get(key, default)\<close>: the first header of that name, else the default.\<close>

definition headers_get :: "(string \<times> string) list \<Rightarrow> string \<Rightarrow> string \<Rightarrow> string" where
  "headers_get hs k d = (case map_of hs k of None \<Rightarrow> d | Some v \<Rightarrow> v)"

subsection \<open>Library objects\<close>

datatype component =
    NerPipeline | SentimentPipeline | Summarizer | ParaphrasePipeline | IntentPipeline
  | SpacyTrf | SpacyBlank | KwExtractor | Embedder
  | ClipModel | ClipProcessor | Wav2Vec2Model | Wav2Vec2Processor
  | WhisperModel | EasyocrReader
  | Pytesseract | Pillow | Pdfplumber | PandasCsv | PandasExcel | Soundfile

text \<open>A loaded model or engine object: which component it is and what it was built from.\<close>

datatype handle = Handle component string

datatype pil_image = Image bytes string

text \<open>What \<^verbatim>\<open>spacy\<close> exposes of an entity span and of a parsed document.
  \<open>ent_text\<close>, \<open>ent_label\<close> and \<open>ent_kb_id\<close> are \<^verbatim>\<open>ent.text\<close>, \<^verbatim>\<open>ent.label_\<close> and
  \<^verbatim>\<open>ent.kb_id_\<close>; \<open>ent_kb_id\<close> is \<open>None\<close> when the span has no such attribute (\<^verbatim>\<open>hasattr\<close> is false);
  the two coreference fields are \<open>None\<close> when the extension attribute is absent
  (\<^verbatim>\<open>getattr\<close> then takes its default). A mention is carried as its \<^verbatim>\<open>str\<close>.\<close>

record Span =
  ent_text :: string
  ent_label :: string
  ent_kb_id :: "string option"

record Doc =
  ents :: "Span list"
  coref_resolved :: "string option"
  coref_clusters :: "string list list option"

text \<open>What the table handler reads of a \<^verbatim>\<open>pandas.DataFrame\<close>:
  \<^verbatim>\<open>df.to_csv(index=False)\<close>, \<^verbatim>\<open>list(df.columns)\<close> and \<^verbatim>\<open>len(df)\<close>.\<close>

record DataFrame =
  to_csv :: string
  columns :: "pyval list"
  len_df :: nat

text \<open>Audio samples as \<^verbatim>\<open>soundfile.read\<close> returns them: the array's shape and data.\<close>

record Speech =
  shape :: "nat list"
  samples :: "pyfloat list"

datatype tensors = Tensors "npfloat list"

subsection \<open>The world a handler runs in\<close>

text \<open>
  Temporary files are the only files the service touches. \<open>TmpFile n suffix\<close> is the
  \<open>n\<close>-th name \<^verbatim>\<open>tempfile.NamedTemporaryFile\<close> has handed out, with the requested suffix.
  The trace records every model initialisation and every library call, in order.
\<close>

datatype path = TmpFile nat string

datatype event = Init component | Invoke component

record world =
  files :: "path \<rightharpoonup> bytes"
  tmp_counter :: nat
  trace :: "event list"

type_synonym 'a io = "world \<Rightarrow> (exn + 'a) \<times> world"

definition io_return :: "'a \<Rightarrow> 'a io" where
  "io_return x w = (Inr x, w)"

definition io_raise :: "exn \<Rightarrow> 'a io" where
  "io_raise e w = (Inl e, w)"

definition io_bind :: "'a io \<Rightarrow> ('a \<Rightarrow> 'b io) \<Rightarrow> 'b io" where
  "io_bind m f w = (case m w of (Inl e, w') \<Rightarrow> (Inl e, w') | (Inr x, w') \<Rightarrow> f x w')"

text \<open>\<^verbatim>\<open>try: m  except Exception as e: h(e)\<close>\<close>

definition io_try :: "'a io \<Rightarrow> (exn \<Rightarrow> 'a io) \<Rightarrow> 'a io" where
  "io_try m h w = (case m w of (Inl e, w') \<Rightarrow> h e w' | (Inr x, w') \<Rightarrow> (Inr x, w'))"

definition emit :: "event \<Rightarrow> unit io" where
  "emit ev w = (Inr (), w\<lparr>trace := trace w @ [ev]\<rparr>)"

text \<open>A library call: it is recorded, then returns or raises as the library does.\<close>

definition call :: "component \<Rightarrow> exn + 'a \<Rightarrow> 'a io" where
  "call c r = io_bind (emit (Invoke c)) (\<lambda>_. case r of Inl e \<Rightarrow> io_raise e | Inr x \<Rightarrow> io_return x)"

text \<open>A model initialisation (\<^verbatim>\<open>load_model\<close>, \<^verbatim>\<open>from_pretrained\<close>, a constructor).\<close>

definition init :: "component \<Rightarrow> exn + 'a \<Rightarrow> 'a io" where
  "init c r = io_bind (emit (Init c)) (\<lambda>_. case r of Inl e \<Rightarrow> io_raise e | Inr x \<Rightarrow> io_return x)"

text \<open>\<^verbatim>\<open>os.remove(path)\<close>\<close>

definition os_remove :: "path \<Rightarrow> unit io" where
  "os_remove p w =
     (case files w p of
        None \<Rightarrow> (Inl (FileNotFoundError ''No such file or directory''), w)
      | Some _ \<Rightarrow> (Inr (), w\<lparr>files := (files w)(p := None)\<rparr>))"

text \<open>A library routine that is given a path opens the file and works on its content.\<close>

definition call_on_file :: "component \<Rightarrow> (bytes \<Rightarrow> exn + 'a) \<Rightarrow> path \<Rightarrow> 'a io" where
  "call_on_file c f p w =
     (case files w p of
        None \<Rightarrow> call c (Inl (FileNotFoundError ''No such file or directory'')) w
      | Some b \<Rightarrow> call c (f b) w)"

text \<open>A computation that touches neither files nor libraries (subscripts, built-ins).\<close>

definition lift :: "exn + 'a \<Rightarrow> 'a io" where
  "lift r = (case r of Inl e \<Rightarrow> io_raise e | Inr x \<Rightarrow> io_return x)"

section \<open>Python built-ins and standard library used by the handlers\<close>

text \<open>\<^verbatim>\<open>xs[0]\<close>, \<^verbatim>\<open>d[k]\<close> and \<^verbatim>\<open>d.get(k, default)\<close>\<close>

definition getitem0 :: "'a list \<Rightarrow> exn + 'a" where
  "getitem0 xs = (case xs of [] \<Rightarrow> Inl (IndexError ''list index out of range'') | x # _ \<Rightarrow> Inr x)"

definition dict_getitem :: "pydict \<Rightarrow> string \<Rightarrow> exn + pyval" where
  "dict_getitem d k = (case map_of d k of None \<Rightarrow> Inl (KeyError k) | Some v \<Rightarrow> Inr v)"

definition dict_get :: "pydict \<Rightarrow> string \<Rightarrow> pyval \<Rightarrow> pyval" where
  "dict_get d k dflt = (case map_of d k of None \<Rightarrow> dflt | Some v \<Rightarrow> v)"

text \<open>\<^verbatim>\<open>sep.join(xs)\<close>\<close>

fun join :: "string \<Rightarrow> string list \<Rightarrow> string" where
  "join sep [] = []"
| "join sep [x] = x"
| "join sep (x # y # ys) = x @ sep @ join sep (y # ys)"

text \<open>\<^verbatim>\<open>s.rfind(c)\<close>: the highest index of \<open>c\<close> in \<open>s\<close>, or \<open>-1\<close>.\<close>

definition rfind :: "string \<Rightarrow> char \<Rightarrow> int" where
  "rfind s c =
     (if c \<in> set s then int (length s) - 1 - int (length (takeWhile (\<lambda>x. x \<noteq> c) (rev s)))
      else - 1)"

text \<open>
  \<^verbatim>\<open>os.path.splitext\<close> (POSIX; \<^verbatim>\<open>genericpath._splitext(p, '/', None, '.')\<close>):
  \<^verbatim>\<open>
  sepIndex = p.rfind(sep)
  dotIndex = p.rfind(extsep)
  if dotIndex > sepIndex:
      filenameIndex = sepIndex + 1
      while filenameIndex < dotIndex:
          if p[filenameIndex:filenameIndex+1] != extsep:
              return p[:dotIndex], p[dotIndex:]
          filenameIndex += 1
  return p, p[:0]
  \<close>
\<close>

function splitext_loop :: "string \<Rightarrow> nat \<Rightarrow> nat \<Rightarrow> string \<times> string" where
  "splitext_loop p filenameIndex dotIndex =
     (if filenameIndex < dotIndex then
        (if take 1 (drop filenameIndex p) \<noteq> ''.'' then (take dotIndex p, drop dotIndex p)
         else splitext_loop p (Suc filenameIndex) dotIndex)
      else (p, []))"
  by pat_completeness auto
termination
  by (relation "measure (\<lambda>(p, filenameIndex, dotIndex). dotIndex - filenameIndex)") auto

declare splitext_loop.simps [simp del]

definition splitext :: "string \<Rightarrow> string \<times> string" where
  "splitext p =
     (let sepIndex = rfind p CHR ''/'';
          dotIndex = rfind p CHR ''.''
      in if dotIndex > sepIndex then splitext_loop p (nat (sepIndex + 1)) (nat dotIndex)
         else (p, []))"

text \<open>
  \<^verbatim>\<open>str.lower\<close> on the characters a header value can hold (Latin-1): the upper-case
  letters are A-Z and the accented capitals 0xC0-0xDE except the multiplication sign 0xD7,
  and each is 32 below its lower-case form.
\<close>

definition lower_char :: "char \<Rightarrow> char" where
  "lower_char c =
     (let n = (of_char c :: nat)
      in if (65 \<le> n \<and> n \<le> 90) \<or> (192 \<le> n \<and> n \<le> 222 \<and> n \<noteq> 215) then char_of (n + 32) else c)"

definition lower :: "string \<Rightarrow> string" where
  "lower s = map lower_char s"

text \<open>The float literals of the source, as binary64 bit patterns.\<close>

definition float_1_0 :: pyfloat where
  "float_1_0 = 0x3FF0000000000000"

definition float_0_98 :: pyfloat where
  "float_0_98 = 0x3FEF5C28F5C28F5C"

text \<open>
  \<^verbatim>\<open>norm > 0\<close> on a NumPy float32, read off its binary32 bit pattern: the sign bit is
  clear and the value is neither zero nor a NaN, that is, the pattern lies above
  \<open>0x00000000\<close> and at most at \<open>0x7F800000\<close> (plus infinity). Zero is the pattern of
  \<open>+0.0\<close> or of \<open>-0.0\<close>; a NaN has all exponent bits set and a non-zero fraction.
\<close>

definition gt_zero :: "npfloat \<Rightarrow> bool" where
  "gt_zero x = (0 < x \<and> x \<le> 0x7F800000)"

definition float32_is_zero :: "npfloat \<Rightarrow> bool" where
  "float32_is_zero x = (x = 0x00000000 \<or> x = 0x80000000)"

definition float32_is_nan :: "npfloat \<Rightarrow> bool" where
  "float32_is_nan x = (0x7F800000 < x \<and> x < 0x80000000 \<or> 0xFF800000 < x)"

section \<open>The libraries, as parameters\<close>

text \<open>
  Each field is what one library entry point returns (\<open>Inr\<close>) or raises (\<open>Inl\<close>) on its
  arguments while one request (or the start-up) is served.
  \<^item> \<open>load\<close>: every constructor and loader (\<^verbatim>\<open>pipeline(...)\<close>, \<^verbatim>\<open>spacy.load\<close>,
    \<^verbatim>\<open>spacy.blank\<close>, \<^verbatim>\<open>yake.KeywordExtractor\<close>, \<^verbatim>\<open>SentenceTransformer\<close>,
    \<^verbatim>\<open>from_pretrained\<close>, \<^verbatim>\<open>whisper.load_model\<close>, \<^verbatim>\<open>easyocr.Reader\<close>), by component and
    model name;
  \<^item> \<open>pipeline_call\<close>: calling a Hugging Face pipeline on a text with keyword arguments;
    the result is a list of dictionaries;
  \<^item> \<open>pdfplumber_open\<close>: the pages of the document, each page being what its
    \<^verbatim>\<open>extract_text()\<close> returns or raises;
  \<^item> \<open>get_image_features\<close> and \<open>wav2vec2_model_call\<close> include the tensor-to-array
    conversions that follow them in the source
    (\<^verbatim>\<open>[0].cpu().numpy()\<close>, \<^verbatim>\<open>.last_hidden_state.mean(dim=1)[0].cpu().numpy()\<close>);
  \<^item> \<open>readtext\<close> includes the \<^verbatim>\<open>np.array(img)\<close> of its argument;
  \<^item> \<open>py_float\<close> is the built-in \<^verbatim>\<open>float\<close>; \<open>linalg_norm\<close>, \<open>np_divide\<close> and \<open>tolist\<close>
    are NumPy's \<^verbatim>\<open>np.linalg.norm\<close>, division of an array by a scalar and \<^verbatim>\<open>tolist\<close> on
    float32 arrays;
  \<^item> \<open>file_name_too_long\<close> is the \<^verbatim>\<open>OSError\<close> the operating system raises for a temporary
    file whose name, with the given suffix, is too long (its message holds the random
    name).
\<close>

record env =
  load :: "component \<Rightarrow> string \<Rightarrow> exn + handle"
  pipeline_call :: "handle \<Rightarrow> string \<Rightarrow> pydict \<Rightarrow> exn + pydict list"
  nlp_call :: "handle \<Rightarrow> string \<Rightarrow> exn + Doc"
  extract_keywords :: "handle \<Rightarrow> string \<Rightarrow> exn + (string \<times> pyfloat) list"
  py_float :: "pyval \<Rightarrow> exn + pyfloat"
  encode :: "handle \<Rightarrow> string list \<Rightarrow> exn + pyfloat list list"
  pdfplumber_open :: "bytes \<Rightarrow> exn + (exn + string option) list"
  Image_open :: "bytes \<Rightarrow> exn + pil_image"
  convert :: "pil_image \<Rightarrow> string \<Rightarrow> exn + pil_image"
  image_to_string :: "pil_image \<Rightarrow> exn + string"
  readtext :: "handle \<Rightarrow> pil_image \<Rightarrow> exn + (pyval \<times> string \<times> pyfloat) list"
  transcribe :: "handle \<Rightarrow> bytes \<Rightarrow> exn + pydict"
  read_csv :: "bytes \<Rightarrow> exn + DataFrame"
  read_excel :: "bytes \<Rightarrow> exn + DataFrame"
  sf_read :: "bytes \<Rightarrow> exn + Speech \<times> int"
  mean_axis1 :: "Speech \<Rightarrow> exn + Speech"
  clip_processor_call :: "handle \<Rightarrow> pil_image \<Rightarrow> exn + tensors"
  get_image_features :: "handle \<Rightarrow> tensors \<Rightarrow> exn + ndarray"
  wav2vec2_processor_call :: "handle \<Rightarrow> Speech \<Rightarrow> int \<Rightarrow> exn + tensors"
  wav2vec2_model_call :: "handle \<Rightarrow> tensors \<Rightarrow> exn + ndarray"
  linalg_norm :: "ndarray \<Rightarrow> npfloat"
  np_divide :: "ndarray \<Rightarrow> npfloat \<Rightarrow> ndarray"
  tolist :: "ndarray \<Rightarrow> pyfloat list"
  file_name_too_long :: "string \<Rightarrow> exn"

subsection \<open>Temporary files\<close>

text \<open>
  \<^verbatim>\<open>with tempfile.NamedTemporaryFile(delete=False, suffix=s) as tmp: tmp.write(b); tmp_path = tmp.name\<close>:
  a new file under a name not used before, holding the payload, left on disk when the
  \<^verbatim>\<open>with\<close> block closes it.

  The name is the prefix \<^verbatim>\<open>tmp\<close>, eight random characters and the suffix, and the call
  raises when that name cannot be opened: \<^verbatim>\<open>ValueError("embedded null byte")\<close> when the
  suffix holds a NUL character, and the operating system's \<^verbatim>\<open>OSError\<close> (file name too
  long) when the name, encoded as UTF-8, is longer than the 255 bytes a POSIX file system
  accepts. Other failures of the operating system (a full disk, a missing directory) are
  not modelled.
\<close>

definition utf8_length :: "string \<Rightarrow> nat" where
  "utf8_length s = length s + length (filter (\<lambda>c. 128 \<le> (of_char c :: nat)) s)"

definition NAME_MAX :: nat where
  "NAME_MAX = 255"

definition tempfile_refusal :: "env \<Rightarrow> string \<Rightarrow> exn option" where
  "tempfile_refusal env suffix =
     (if CHR 0x00 \<in> set suffix then Some (ValueError ''embedded null byte'')
      else if NAME_MAX < 3 + 8 + utf8_length suffix then Some (file_name_too_long env suffix)
      else None)"

definition NamedTemporaryFile_write :: "env \<Rightarrow> string \<Rightarrow> bytes \<Rightarrow> path io" where
  "NamedTemporaryFile_write env suffix b w =
     (case tempfile_refusal env suffix of
        Some e \<Rightarrow> (Inl e, w)
      | None \<Rightarrow>
          (let p = TmpFile (tmp_counter w) suffix
           in (Inr p, w\<lparr>files := (files w)(p \<mapsto> b), tmp_counter := Suc (tmp_counter w)\<rparr>)))"

section \<open>Start-up: the module-level statements\<close>

text \<open>The module's global names after a successful import.\<close>

record globals =
  ner_pipeline :: handle
  sentiment_pipeline :: handle
  summarizer :: handle
  paraphrase_pipeline :: handle
  intent_pipeline :: handle
  nlp_spacy :: handle
  kw_extractor :: handle
  embedder :: "handle option"
  clip_model :: "handle option"
  clip_processor :: "handle option"
  wav2vec2_model :: "handle option"
  wav2vec2_processor :: "handle option"

text \<open>
  The statements run in source order. The five pipelines and the keyword extractor are
  built outside any \<^verbatim>\<open>try\<close>: an exception there ends the import (\<open>Inl\<close>). A failed
  \<^verbatim>\<open>spacy.load\<close> is replaced by \<^verbatim>\<open>spacy.blank("en")\<close>. The embedder, the CLIP pair and
  the Wav2Vec2 pair are each loaded inside a \<^verbatim>\<open>try\<close> whose handler sets the names to
  \<^verbatim>\<open>None\<close> (both names of a pair, also when only the second load raised).
\<close>

definition load_pair :: "env \<Rightarrow> component \<Rightarrow> component \<Rightarrow> string \<Rightarrow> (handle option \<times> handle option) io" where
  "load_pair env c1 c2 name =
     io_try
       (io_bind (init c1 (load env c1 name)) (\<lambda>m.
        io_bind (init c2 (load env c2 name)) (\<lambda>p.
        io_return (Some m, Some p))))
       (\<lambda>e. io_return (None, None))"

definition startup :: "env \<Rightarrow> globals io" where
  "startup env =
     io_bind (init NerPipeline (load env NerPipeline ''dslim/bert-base-NER'')) (\<lambda>ner_p.
     io_bind (init SentimentPipeline
               (load env SentimentPipeline ''distilbert-base-uncased-finetuned-sst-2-english'')) (\<lambda>sent_p.
     io_bind (init Summarizer (load env Summarizer ''facebook/bart-large-cnn'')) (\<lambda>summ.
     io_bind (init ParaphrasePipeline (load env ParaphrasePipeline ''ramsrigouthamg/t5_paraphraser'')) (\<lambda>para_p.
     io_bind (init IntentPipeline
               (load env IntentPipeline ''bhadresh-savani/distilbert-base-uncased-emotion'')) (\<lambda>intent_p.
     io_bind (io_try (init SpacyTrf (load env SpacyTrf ''en_core_web_trf''))
                     (\<lambda>e. init SpacyBlank (load env SpacyBlank ''en''))) (\<lambda>spacy_h.
     io_bind (init KwExtractor (load env KwExtractor ''lan=en,n=2,top=10'')) (\<lambda>kw.
     io_bind (io_try (io_bind (init Embedder (load env Embedder ''all-MiniLM-L6-v2'')) (\<lambda>m. io_return (Some m)))
                     (\<lambda>e. io_return None)) (\<lambda>emb.
     io_bind (load_pair env ClipModel ClipProcessor ''openai/clip-vit-base-patch16'') (\<lambda>(clip_m, clip_p).
     io_bind (load_pair env Wav2Vec2Model Wav2Vec2Processor ''facebook/wav2vec2-base-960h'') (\<lambda>(wav_m, wav_p).
     io_return \<lparr>ner_pipeline = ner_p, sentiment_pipeline = sent_p, summarizer = summ,
                paraphrase_pipeline = para_p, intent_pipeline = intent_p, nlp_spacy = spacy_h,
                kw_extractor = kw, embedder = emb, clip_model = clip_m, clip_processor = clip_p,
                wav2vec2_model = wav_m, wav2vec2_processor = wav_p\<rparr>))))))))))"

section \<open>The request handlers\<close>

text \<open>
  Each handler is the source function of the same name, statement by statement. The
  \<^verbatim>\<open>logger\<close> calls are left out: they change neither the returned value, nor the files,
  nor which library is called. \<^verbatim>\<open>await request.body()\<close> is the body of the request.

  Every error path of the source ends in \<^verbatim>\<open>return {"error": str(e)}, 500\<close>: the returned
  value is a two-element tuple.
\<close>

definition error_result :: "string \<Rightarrow> pyval" where
  "error_result msg = PTuple [PDict [(''error'', PStr msg)], PInt 500]"

definition on_exception :: "exn \<Rightarrow> pyval io" where
  "on_exception e = io_return (error_result (str_exn e))"

text \<open>A call through a global name holding a model: the call is made on that object.\<close>

fun component_of :: "handle \<Rightarrow> component" where
  "component_of (Handle c name) = c"

definition invoke :: "handle \<Rightarrow> exn + 'a \<Rightarrow> 'a io" where
  "invoke h r = call (component_of h) r"

definition health :: "pyval io" where
  "health = io_return (PDict [(''status'', PStr ''ok'')])"

definition ner :: "env \<Rightarrow> globals \<Rightarrow> TextRequest \<Rightarrow> pyval io" where
  "ner env g req =
     io_try
       (io_bind (invoke (ner_pipeline g) (pipeline_call env (ner_pipeline g) (req_text req) [])) (\<lambda>result.
        io_return (PDict [(''entities'', PList (map PDict result))])))
       on_exception"

definition sentiment :: "env \<Rightarrow> globals \<Rightarrow> TextRequest \<Rightarrow> pyval io" where
  "sentiment env g req =
     io_try
       (io_bind (invoke (sentiment_pipeline g)
                   (pipeline_call env (sentiment_pipeline g) (req_text req) [])) (\<lambda>result.
        io_bind (lift (getitem0 result)) (\<lambda>r0.
        io_return (PDict r0))))
       on_exception"

text \<open>
  \<^verbatim>\<open>
  if req.type == "extractive":
      keywords = kw_extractor.extract_keywords(req.text)
      summary = " ".join([kw for kw, _ in keywords])
      return {"summary": summary}
  else:
      result = summarizer(req.text, max_length=130, min_length=30, do_sample=False)
      return {"summary": result[0]['summary_text']}
  \<close>
\<close>

definition summarize :: "env \<Rightarrow> globals \<Rightarrow> TextRequest \<Rightarrow> pyval io" where
  "summarize env g req =
     io_try
       (if req_type req = Some ''extractive'' then
          io_bind (invoke (kw_extractor g) (extract_keywords env (kw_extractor g) (req_text req))) (\<lambda>keywords.
          let summary = join '' '' (map fst keywords)
          in io_return (PDict [(''summary'', PStr summary)]))
        else
          io_bind (invoke (summarizer g)
                     (pipeline_call env (summarizer g) (req_text req)
                        [(''max_length'', PInt 130), (''min_length'', PInt 30),
                         (''do_sample'', PBool False)])) (\<lambda>result.
          io_bind (lift (getitem0 result)) (\<lambda>r0.
          io_bind (lift (dict_getitem r0 ''summary_text'')) (\<lambda>summary_text.
          io_return (PDict [(''summary'', summary_text)])))))
       on_exception"

definition intent :: "env \<Rightarrow> globals \<Rightarrow> TextRequest \<Rightarrow> pyval io" where
  "intent env g req =
     io_try
       (io_bind (invoke (intent_pipeline g) (pipeline_call env (intent_pipeline g) (req_text req) [])) (\<lambda>result.
        io_bind (lift (getitem0 result)) (\<lambda>r0.
        io_bind (lift (dict_getitem r0 ''label'')) (\<lambda>label.
        io_bind (lift (getitem0 result)) (\<lambda>r0'.
        io_bind (lift (dict_getitem r0' ''score'')) (\<lambda>score.
        io_bind (lift (py_float env score)) (\<lambda>confidence.
        io_return (PDict [(''intent'', label), (''confidence'', PFloat confidence)]))))))))
       on_exception"

text \<open>The handler \<^verbatim>\<open>keywords\<close> of the route \<^verbatim>\<open>/keywords\<close>.\<close>

definition keywords_handler :: "env \<Rightarrow> globals \<Rightarrow> TextRequest \<Rightarrow> pyval io" where
  "keywords_handler env g req =
     io_try
       (io_bind (invoke (kw_extractor g) (extract_keywords env (kw_extractor g) (req_text req))) (\<lambda>kws.
        io_return (PDict [(''keywords'', PList (map (PStr \<circ> fst) kws))])))
       on_exception"

text \<open>
  \<^verbatim>\<open>
  doc = nlp_spacy(req.text)
  resolved = getattr(doc._, "coref_resolved", req.text)
  clusters = getattr(doc._, "coref_clusters", [])
  return {"resolved_text": resolved,
          "clusters": [[str(m) for m in cluster] for cluster in clusters] if clusters else []}
  \<close>
\<close>

definition coref :: "env \<Rightarrow> globals \<Rightarrow> TextRequest \<Rightarrow> pyval io" where
  "coref env g req =
     io_try
       (io_bind (invoke (nlp_spacy g) (nlp_call env (nlp_spacy g) (req_text req))) (\<lambda>doc.
        let resolved = (case coref_resolved doc of None \<Rightarrow> req_text req | Some r \<Rightarrow> r);
            clusters = (case coref_clusters doc of None \<Rightarrow> [] | Some cs \<Rightarrow> cs)
        in io_return (PDict [(''resolved_text'', PStr resolved),
                             (''clusters'', if clusters \<noteq> []
                                            then PList (map (\<lambda>cluster. PList (map PStr cluster)) clusters)
                                            else PList [])])))
       on_exception"

definition paraphrase :: "env \<Rightarrow> globals \<Rightarrow> TextRequest \<Rightarrow> pyval io" where
  "paraphrase env g req =
     io_try
       (io_bind (invoke (paraphrase_pipeline g)
                   (pipeline_call env (paraphrase_pipeline g) (''paraphrase: '' @ req_text req)
                      [(''max_length'', PInt 256), (''do_sample'', PBool True), (''top_k'', PInt 120),
                       (''top_p'', PFloat float_0_98), (''num_return_sequences'', PInt 1)])) (\<lambda>result.
        io_bind (lift (getitem0 result)) (\<lambda>r0.
        io_bind (lift (dict_getitem r0 ''generated_text'')) (\<lambda>generated_text.
        io_return (PDict [(''paraphrased'', generated_text)])))))
       on_exception"

text \<open>
  The loop of \<^verbatim>\<open>entity_linking\<close> over \<^verbatim>\<open>doc.ents\<close>:
  \<^verbatim>\<open>
  entity_id = ent.kb_id_ if hasattr(ent, 'kb_id_') else ''
  entity_label = ent.label_
  entities.append({"mention": ent.text, "entity_id": entity_id, "entity_label": entity_label,
                   "confidence": float(ent.kb_id_) if entity_id else 1.0})
  \<close>
  When \<open>entity_id\<close> is not empty it is \<^verbatim>\<open>ent.kb_id_\<close>, the argument of \<^verbatim>\<open>float\<close>.
  An exception of \<^verbatim>\<open>float\<close> leaves the loop and the \<^verbatim>\<open>try\<close> block.
\<close>

definition link_entity :: "env \<Rightarrow> Span \<Rightarrow> exn + pyval" where
  "link_entity env ent =
     (let entity_id = (case ent_kb_id ent of Some k \<Rightarrow> k | None \<Rightarrow> []);
          entity_label = ent_label ent
      in case (if entity_id \<noteq> [] then py_float env (PStr entity_id) else Inr float_1_0) of
           Inl e \<Rightarrow> Inl e
         | Inr confidence \<Rightarrow>
             Inr (PDict [(''mention'', PStr (ent_text ent)), (''entity_id'', PStr entity_id),
                         (''entity_label'', PStr entity_label), (''confidence'', PFloat confidence)]))"

fun link_entities :: "env \<Rightarrow> Span list \<Rightarrow> pyval list \<Rightarrow> exn + pyval list" where
  "link_entities env [] entities = Inr entities"
| "link_entities env (ent # rest) entities =
     (case link_entity env ent of
        Inl e \<Rightarrow> Inl e
      | Inr d \<Rightarrow> link_entities env rest (entities @ [d]))"

definition entity_linking :: "env \<Rightarrow> globals \<Rightarrow> TextRequest \<Rightarrow> pyval io" where
  "entity_linking env g req =
     io_try
       (io_bind (invoke (nlp_spacy g) (nlp_call env (nlp_spacy g) (req_text req))) (\<lambda>doc.
        io_bind (lift (link_entities env (ents doc) [])) (\<lambda>entities.
        io_return (PDict [(''entities'', PList entities)]))))
       on_exception"

text \<open>
  \<^verbatim>\<open>
  if embedder is None:
      return {"error": "Embedding model not loaded"}, 500
  try:
      embeddings = embedder.encode(req.texts, convert_to_numpy=True).tolist()
      return {"embeddings": embeddings}
  \<close>
\<close>

definition embed :: "env \<Rightarrow> globals \<Rightarrow> EmbedRequest \<Rightarrow> pyval io" where
  "embed env g req =
     (case embedder g of
        None \<Rightarrow> io_return (error_result ''Embedding model not loaded'')
      | Some emb \<Rightarrow>
          io_try
            (io_bind (invoke emb (encode env emb (texts req))) (\<lambda>embeddings.
             io_return (PDict [(''embeddings'', PList (map (\<lambda>v. PList (map PFloat v)) embeddings))])))
            on_exception)"

text \<open>
  \<^verbatim>\<open>"\n".join(page.extract_text() or '' for page in pdf.pages)\<close>: the pages are read in
  order, and the first \<^verbatim>\<open>extract_text\<close> that raises ends the join.
\<close>

fun extract_pages :: "(exn + string option) list \<Rightarrow> exn + string list" where
  "extract_pages [] = Inr []"
| "extract_pages (page # pages) =
     (case page of
        Inl e \<Rightarrow> Inl e
      | Inr t \<Rightarrow>
          (case extract_pages pages of
             Inl e \<Rightarrow> Inl e
           | Inr ts \<Rightarrow> Inr ((case t of None \<Rightarrow> [] | Some s \<Rightarrow> s) # ts)))"

definition extract_pdf :: "env \<Rightarrow> Request \<Rightarrow> pyval io" where
  "extract_pdf env request =
     io_try
       (let file_bytes = req_body request
        in io_bind (call Pdfplumber (pdfplumber_open env file_bytes)) (\<lambda>pdf_pages.
           io_bind (call Pdfplumber (extract_pages pdf_pages)) (\<lambda>page_texts.
           let text = join [CHR 0x0A] page_texts;
               num_pages = length pdf_pages
           in io_return (PDict [(''text'', PStr text),
                                (''metadata'', PDict [(''num_pages'', PInt (int num_pages))])]))))
       on_exception"

text \<open>
  \<^verbatim>\<open>
  with Image.open(io.BytesIO(file_bytes)) as img:
      try:
          text = pytesseract.image_to_string(img)
          method = "pytesseract"
      except Exception:
          reader = easyocr.Reader(['en'])
          result = reader.readtext(np.array(img))
          text = " ".join([r[1] for r in result])
          method = "easyocr"
  return {"text": text, "metadata": {"ocr_method": method}}
  \<close>
\<close>

definition ocr_image :: "env \<Rightarrow> Request \<Rightarrow> pyval io" where
  "ocr_image env request =
     io_try
       (let file_bytes = req_body request
        in io_bind (call Pillow (Image_open env file_bytes)) (\<lambda>img.
           io_bind
             (io_try
                (io_bind (call Pytesseract (image_to_string env img)) (\<lambda>text.
                 io_return (text, ''pytesseract'')))
                (\<lambda>_.
                 io_bind (init EasyocrReader (load env EasyocrReader ''en'')) (\<lambda>reader.
                 io_bind (invoke reader (readtext env reader img)) (\<lambda>result.
                 let text = join '' '' (map (\<lambda>r. fst (snd r)) result)
                 in io_return (text, ''easyocr''))))) (\<lambda>(text, method).
           io_return (PDict [(''text'', PStr text),
                             (''metadata'', PDict [(''ocr_method'', PStr method)])]))))
       on_exception"

text \<open>
  \<^verbatim>\<open>
  with tempfile.NamedTemporaryFile(delete=False, suffix=".wav") as tmp:
      tmp.write(file_bytes)
      tmp_path = tmp.name
  model = whisper.load_model("base")
  result = model.transcribe(tmp_path)
  os.remove(tmp_path)
  return {"text": result["text"], "metadata": {"language": result.get("language", "en")}}
  \<close>
\<close>

definition transcribe_audio :: "env \<Rightarrow> Request \<Rightarrow> pyval io" where
  "transcribe_audio env request =
     io_try
       (let file_bytes = req_body request
        in io_bind (NamedTemporaryFile_write env ''.wav'' file_bytes) (\<lambda>tmp_path.
           io_bind (init WhisperModel (load env WhisperModel ''base'')) (\<lambda>model.
           io_bind (call_on_file (component_of model) (transcribe env model) tmp_path) (\<lambda>result.
           io_bind (os_remove tmp_path) (\<lambda>_.
           io_bind (lift (dict_getitem result ''text'')) (\<lambda>text.
           io_return (PDict [(''text'', text),
                             (''metadata'',
                              PDict [(''language'', dict_get result ''language'' (PStr ''en''))])])))))))
       on_exception"

text \<open>
  \<^verbatim>\<open>
  file_name = request.headers.get("x-file-name", "table.csv")
  ext = os.path.splitext(file_name)[-1].lower()
  with tempfile.NamedTemporaryFile(delete=False, suffix=ext) as tmp:
      tmp.write(file_bytes)
      tmp_path = tmp.name
  if ext == ".csv":
      df = pd.read_csv(tmp_path)
  elif ext in [".xls", ".xlsx"]:
      df = pd.read_excel(tmp_path)
  else:
      raise ValueError("Unsupported table file type")
  os.remove(tmp_path)
  text = df.to_csv(index=False)
  return {"text": text, "metadata": {"columns": list(df.columns), "rows": len(df)}}
  \<close>
\<close>

definition table_ext :: "Request \<Rightarrow> string" where
  "table_ext request =
     (let file_name = headers_get (req_headers request) ''x-file-name'' ''table.csv''
      in lower (snd (splitext file_name)))"

definition parse_table :: "env \<Rightarrow> Request \<Rightarrow> pyval io" where
  "parse_table env request =
     io_try
       (let file_bytes = req_body request;
            ext = table_ext request
        in io_bind (NamedTemporaryFile_write env ext file_bytes) (\<lambda>tmp_path.
           io_bind
             (if ext = ''.csv'' then call_on_file PandasCsv (read_csv env) tmp_path
              else if ext \<in> set [''.xls'', ''.xlsx''] then call_on_file PandasExcel (read_excel env) tmp_path
              else io_raise (ValueError ''Unsupported table file type'')) (\<lambda>df.
           io_bind (os_remove tmp_path) (\<lambda>_.
           let text = to_csv df
           in io_return (PDict [(''text'', PStr text),
                                (''metadata'', PDict [(''columns'', PList (columns df)),
                                                      (''rows'', PInt (int (len_df df)))])])))))
       on_exception"

text \<open>
  The normalisation step of both embedding handlers:
  \<^verbatim>\<open>norm = np.linalg.norm(features); if norm > 0: features = features / norm\<close>
\<close>

definition normalize :: "env \<Rightarrow> ndarray \<Rightarrow> ndarray" where
  "normalize env features =
     (let norm = linalg_norm env features
      in if gt_zero norm then np_divide env features norm else features)"

text \<open>
  \<^verbatim>\<open>
  if clip_model is None or clip_processor is None:
      return {"error": "CLIP model not loaded"}, 500
  try:
      file_bytes = await request.body()
      image = Image.open(io.BytesIO(file_bytes)).convert("RGB")
      inputs = clip_processor(images=image, return_tensors="pt")
      with torch.no_grad():
          image_features = clip_model.get_image_features(**inputs)
          image_features = image_features[0].cpu().numpy()
          norm = np.linalg.norm(image_features)
          if norm > 0:
              image_features = image_features / norm
      return {"embedding": image_features.tolist()}
  \<close>
\<close>

definition image_embed :: "env \<Rightarrow> globals \<Rightarrow> Request \<Rightarrow> pyval io" where
  "image_embed env g request =
     (case (clip_model g, clip_processor g) of
        (Some model, Some processor) \<Rightarrow>
          io_try
            (let file_bytes = req_body request
             in io_bind (call Pillow (Image_open env file_bytes)) (\<lambda>opened.
                io_bind (call Pillow (convert env opened ''RGB'')) (\<lambda>image.
                io_bind (invoke processor (clip_processor_call env processor image)) (\<lambda>inputs.
                io_bind (invoke model (get_image_features env model inputs)) (\<lambda>image_features.
                io_return (PDict [(''embedding'',
                                   PList (map PFloat (tolist env (normalize env image_features))))]))))))
            on_exception
      | _ \<Rightarrow> io_return (error_result ''CLIP model not loaded''))"

text \<open>
  \<^verbatim>\<open>
  if wav2vec2_model is None or wav2vec2_processor is None:
      return {"error": "Wav2Vec2 model not loaded"}, 500
  try:
      file_bytes = await request.body()
      with tempfile.NamedTemporaryFile(delete=False, suffix=".wav") as tmp:
          tmp.write(file_bytes)
          tmp_path = tmp.name
      speech, sample_rate = sf.read(tmp_path)
      os.remove(tmp_path)
      if len(speech.shape) > 1:
          speech = speech.mean(axis=1)
      inputs = wav2vec2_processor(speech, sampling_rate=sample_rate, return_tensors="pt")
      with torch.no_grad():
          outputs = wav2vec2_model(**inputs)
          audio_features = outputs.last_hidden_state.mean(dim=1)[0].cpu().numpy()
          norm = np.linalg.norm(audio_features)
          if norm > 0:
              audio_features = audio_features / norm
      return {"embedding": audio_features.tolist()}
  \<close>
\<close>

definition audio_embed :: "env \<Rightarrow> globals \<Rightarrow> Request \<Rightarrow> pyval io" where
  "audio_embed env g request =
     (case (wav2vec2_model g, wav2vec2_processor g) of
        (Some model, Some processor) \<Rightarrow>
          io_try
            (let file_bytes = req_body request
             in io_bind (NamedTemporaryFile_write env ''.wav'' file_bytes) (\<lambda>tmp_path.
                io_bind (call_on_file Soundfile (sf_read env) tmp_path) (\<lambda>(speech0, sample_rate).
                io_bind (os_remove tmp_path) (\<lambda>_.
                io_bind (if length (shape speech0) > 1 then lift (mean_axis1 env speech0)
                         else io_return speech0) (\<lambda>speech.
                io_bind (invoke processor
                           (wav2vec2_processor_call env processor speech sample_rate)) (\<lambda>inputs.
                io_bind (invoke model (wav2vec2_model_call env model inputs)) (\<lambda>audio_features.
                io_return (PDict [(''embedding'',
                                   PList (map PFloat (tolist env (normalize env audio_features))))]))))))))
            on_exception
      | _ \<Rightarrow> io_return (error_result ''Wav2Vec2 model not loaded''))"

section \<open>The route table and the delivery of a handler's result\<close>

text \<open>The decorators \<^verbatim>\<open>@app.get("/health")\<close>, \<^verbatim>\<open>@app.post("/ner")\<close>, ...: one handler per route,
  each called with the parsed request.\<close>

datatype request =
    GET_health
  | POST_ner TextRequest
  | POST_sentiment TextRequest
  | POST_summarize TextRequest
  | POST_intent TextRequest
  | POST_keywords TextRequest
  | POST_coref TextRequest
  | POST_paraphrase TextRequest
  | POST_entity_linking TextRequest
  | POST_embed EmbedRequest
  | POST_pdf Request
  | POST_ocr Request
  | POST_transcribe Request
  | POST_table Request
  | POST_image_embed Request
  | POST_audio_embed Request

fun route :: "env \<Rightarrow> globals \<Rightarrow> request \<Rightarrow> pyval io" where
  "route env g GET_health = health"
| "route env g (POST_ner req) = ner env g req"
| "route env g (POST_sentiment req) = sentiment env g req"
| "route env g (POST_summarize req) = summarize env g req"
| "route env g (POST_intent req) = intent env g req"
| "route env g (POST_keywords req) = keywords_handler env g req"
| "route env g (POST_coref req) = coref env g req"
| "route env g (POST_paraphrase req) = paraphrase env g req"
| "route env g (POST_entity_linking req) = entity_linking env g req"
| "route env g (POST_embed req) = embed env g req"
| "route env g (POST_pdf request) = extract_pdf env request"
| "route env g (POST_ocr request) = ocr_image env request"
| "route env g (POST_transcribe request) = transcribe_audio env request"
| "route env g (POST_table request) = parse_table env request"
| "route env g (POST_image_embed request) = image_embed env g request"
| "route env g (POST_audio_embed request) = audio_embed env g request"

text \<open>
  Modelled from the spec: the serving framework's delivery of a handler's return value
  (FastAPI; it is imported by the source and is not part of the repository). Section 9
  of the spec: a tuple returned by a handler is "treated as JSON body, status ignored by
  the serving framework". None of the route decorators sets a status code, so the status
  is the framework's default for a returned value, 200, and the body is the returned
  value with every tuple written as a JSON array.
\<close>

record http_response =
  status_code :: nat
  body :: pyval

primrec jsonable_encoder :: "pyval \<Rightarrow> pyval" where
  "jsonable_encoder PNone = PNone"
| "jsonable_encoder (PBool b) = PBool b"
| "jsonable_encoder (PInt i) = PInt i"
| "jsonable_encoder (PFloat f) = PFloat f"
| "jsonable_encoder (PStr s) = PStr s"
| "jsonable_encoder (PList xs) = PList (map jsonable_encoder xs)"
| "jsonable_encoder (PTuple xs) = PList (map jsonable_encoder xs)"
| "jsonable_encoder (PDict kvs) = PDict (map (map_prod id jsonable_encoder) kvs)"

definition deliver :: "pyval \<Rightarrow> http_response" where
  "deliver v = \<lparr>status_code = 200, body = jsonable_encoder v\<rparr>"

definition is_success_status :: "nat \<Rightarrow> bool" where
  "is_success_status s = (200 \<le> s \<and> s < 300)"

text \<open>The two shapes of a value a handler returns: a dictionary, or the error tuple.\<close>

definition dict_or_error_tuple :: "exn + pyval \<Rightarrow> bool" where
  "dict_or_error_tuple r =
     (\<exists>v. r = Inr v \<and> ((\<exists>msg. v = error_result msg) \<or> (\<exists>d. v = PDict d)))"

section \<open>Reading a trace\<close>

fun is_init :: "event \<Rightarrow> bool" where
  "is_init (Init c) = True"
| "is_init (Invoke c) = False"

definition inits :: "world \<Rightarrow> event list" where
  "inits w = filter is_init (trace w)"

section \<open>Concrete runs\<close>

text \<open>
  A process that has just started, and one behaviour of the libraries in which every
  load and every call succeeds. \<^verbatim>\<open>float\<close> accepts the string \<^verbatim>\<open>"0.5"\<close> and rejects
  every other string the way Python words it; the transformer pipeline of spaCy reports
  entities (linked to the identifier \<^verbatim>\<open>Q64\<close> for the text \<^verbatim>\<open>Berlin\<close>), the blank pipeline none.
\<close>

definition initial_world :: world where
  "initial_world = \<lparr>files = Map.empty, tmp_counter = 0, trace = []\<rparr>"

definition float_0_5 :: pyfloat where
  "float_0_5 = 0x3FE0000000000000"

definition example_float :: "pyval \<Rightarrow> exn + pyfloat" where
  "example_float v =
     (case v of
        PFloat f \<Rightarrow> Inr f
      | PStr s \<Rightarrow>
          (if s = ''0.5'' then Inr float_0_5
           else Inl (ValueError (''could not convert string to float: '' @ [CHR 0x27] @ s @ [CHR 0x27])))
      | _ \<Rightarrow> Inl (Exception ''float() argument must be a string or a real number''))"

definition example_doc :: "handle \<Rightarrow> string \<Rightarrow> Doc" where
  "example_doc h t =
     \<lparr>ents = (if component_of h \<noteq> SpacyTrf then []
              else if t = ''Berlin''
              then [\<lparr>ent_text = ''Berlin'', ent_label = ''GPE'', ent_kb_id = Some ''Q64''\<rparr>]
              else [\<lparr>ent_text = ''Paris'', ent_label = ''GPE'', ent_kb_id = Some ''0.5''\<rparr>,
                    \<lparr>ent_text = ''Monday'', ent_label = ''DATE'', ent_kb_id = Some []\<rparr>]),
      coref_resolved = None, coref_clusters = None\<rparr>"

text \<open>
  Float32 values of the examples, as bit patterns: the features \<open>[3.0, 4.0]\<close> of norm
  \<open>5.0\<close>, and their quotient \<open>[0.6, 0.8]\<close>; every other array has the norm \<open>0.0\<close> here.
  Widening to a Python float keeps the value: \<open>0.6\<close> and \<open>0.8\<close> as float32 are the
  binary64 patterns \<open>0x3FE3333340000000\<close> and \<open>0x3FE99999A0000000\<close>.
\<close>

definition example_features :: ndarray where
  "example_features = [0x40400000, 0x40800000]"

definition example_norm :: "ndarray \<Rightarrow> npfloat" where
  "example_norm v = (if v = [0x40400000, 0x40800000] then 0x40A00000 else 0x00000000)"

definition example_divide :: "ndarray \<Rightarrow> npfloat \<Rightarrow> ndarray" where
  "example_divide v n =
     (if v = [0x40400000, 0x40800000] \<and> n = 0x40A00000 then [0x3F19999A, 0x3F4CCCCD] else v)"

definition example_widen :: "npfloat \<Rightarrow> pyfloat" where
  "example_widen x =
     (if x = 0x3F19999A then 0x3FE3333340000000
      else if x = 0x3F4CCCCD then 0x3FE99999A0000000
      else 0x0000000000000000)"

definition env_ok :: env where
  "env_ok =
     \<lparr>load = (\<lambda>c name. Inr (Handle c name)),
      pipeline_call = (\<lambda>h t kwargs.
         Inr [[(''label'', PStr ''joy''), (''score'', PFloat float_0_5),
               (''summary_text'', PStr ''short''), (''generated_text'', PStr ''reworded'')]]),
      nlp_call = (\<lambda>h t. Inr (example_doc h t)),
      extract_keywords = (\<lambda>h t. Inr [(''neural network'', float_0_5), (''training'', float_1_0)]),
      py_float = example_float,
      encode = (\<lambda>h ts. Inr (map (\<lambda>t. [float_0_5]) ts)),
      pdfplumber_open = (\<lambda>b. Inr [Inr (Some ''page one''), Inr None]),
      Image_open = (\<lambda>b. Inr (Image b ''L'')),
      convert = (\<lambda>img mode. case img of Image b m \<Rightarrow> Inr (Image b mode)),
      image_to_string = (\<lambda>img. Inr ''scanned text''),
      readtext = (\<lambda>h img. Inr [(PNone, ''scanned'', float_0_5), (PNone, ''text'', float_0_5)]),
      transcribe = (\<lambda>h b. Inr [(''text'', PStr ''hello'')]),
      read_csv = (\<lambda>b. Inr \<lparr>to_csv = b, columns = [PStr ''a'', PStr ''b''], len_df = 1\<rparr>),
      read_excel = (\<lambda>b. Inr \<lparr>to_csv = ''a,b'', columns = [PStr ''a'', PStr ''b''], len_df = 0\<rparr>),
      sf_read = (\<lambda>b. Inr (\<lparr>shape = [2], samples = [float_0_5, float_0_5]\<rparr>, 16000)),
      mean_axis1 = (\<lambda>s. Inr s),
      clip_processor_call = (\<lambda>h img. Inr (Tensors [])),
      get_image_features = (\<lambda>h t. Inr example_features),
      wav2vec2_processor_call = (\<lambda>h s r. Inr (Tensors [])),
      wav2vec2_model_call = (\<lambda>h t. Inr example_features),
      linalg_norm = example_norm,
      np_divide = example_divide,
      tolist = map example_widen,
      file_name_too_long = (\<lambda>suffix. Exception ''[Errno 36] File name too long'')\<rparr>"

text \<open>The same libraries on an input whose features are all zero.\<close>

definition zero_features :: "env \<Rightarrow> env" where
  "zero_features env =
     env\<lparr>get_image_features := (\<lambda>h t. Inr [0x00000000, 0x00000000]),
         wav2vec2_model_call := (\<lambda>h t. Inr [0x00000000, 0x00000000])\<rparr>"

text \<open>The global names after a start-up in which every load has succeeded.\<close>

definition globals_ok :: globals where
  "globals_ok =
     \<lparr>ner_pipeline = Handle NerPipeline ''dslim/bert-base-NER'',
      sentiment_pipeline = Handle SentimentPipeline ''distilbert-base-uncased-finetuned-sst-2-english'',
      summarizer = Handle Summarizer ''facebook/bart-large-cnn'',
      paraphrase_pipeline = Handle ParaphrasePipeline ''ramsrigouthamg/t5_paraphraser'',
      intent_pipeline = Handle IntentPipeline ''bhadresh-savani/distilbert-base-uncased-emotion'',
      nlp_spacy = Handle SpacyTrf ''en_core_web_trf'',
      kw_extractor = Handle KwExtractor ''lan=en,n=2,top=10'',
      embedder = Some (Handle Embedder ''all-MiniLM-L6-v2''),
      clip_model = Some (Handle ClipModel ''openai/clip-vit-base-patch16''),
      clip_processor = Some (Handle ClipProcessor ''openai/clip-vit-base-patch16''),
      wav2vec2_model = Some (Handle Wav2Vec2Model ''facebook/wav2vec2-base-960h''),
      wav2vec2_processor = Some (Handle Wav2Vec2Processor ''facebook/wav2vec2-base-960h'')\<rparr>"

text \<open>The same libraries, except that the named loads, or every pipeline call, raise.\<close>

definition failing_loads :: "component set \<Rightarrow> env \<Rightarrow> env" where
  "failing_loads cs env =
     env\<lparr>load := (\<lambda>c name. if c \<in> cs then Inl (Exception ''cannot load the model'') else load env c name)\<rparr>"

definition failing_pipelines :: "env \<Rightarrow> env" where
  "failing_pipelines env = env\<lparr>pipeline_call := (\<lambda>h t kwargs. Inl (Exception ''CUDA out of memory''))\<rparr>"

definition failing_tesseract :: "env \<Rightarrow> env" where
  "failing_tesseract env = env\<lparr>image_to_string := (\<lambda>img. Inl (Exception ''tesseract is not installed''))\<rparr>"

definition text_request :: "string \<Rightarrow> string option \<Rightarrow> TextRequest" where
  "text_request t ty = \<lparr>req_text = t, req_type = ty, req_context = None\<rparr>"

definition raw_request :: "bytes \<Rightarrow> (string \<times> string) list \<Rightarrow> Request" where
  "raw_request b hs = \<lparr>req_body = b, req_headers = hs\<rparr>"

section \<open>Evaluating handlers\<close>

lemmas io_defs = io_return_def io_raise_def io_bind_def io_try_def emit_def call_def init_def lift_def
  invoke_def on_exception_def Let_def

lemmas file_defs = NamedTemporaryFile_write_def os_remove_def call_on_file_def

lemma tempfile_refusal_short [simp]:
  "tempfile_refusal env ''.wav'' = None"
  "tempfile_refusal env ''.csv'' = None"
  "tempfile_refusal env ''.txt'' = None"
  by (simp_all add: tempfile_refusal_def utf8_length_def NAME_MAX_def)

lemmas py_defs = getitem0_def dict_getitem_def dict_get_def IndexError_def KeyError_def ValueError_def
  FileNotFoundError_def

lemma raw_request_sel [simp]:
  "req_body (raw_request b hs) = b" "req_headers (raw_request b hs) = hs"
  by (simp_all add: raw_request_def)

lemma text_request_sel [simp]:
  "req_text (text_request t ty) = t" "req_type (text_request t ty) = ty"
  by (simp_all add: text_request_def)

lemma splitext_examples:
  "splitext ''table.csv'' = (''table'', ''.csv'')"
  "splitext ''report.final.XLSX'' = (''report.final'', ''.XLSX'')"
  "splitext ''.bashrc'' = (''.bashrc'', [])"
  "splitext ''dir.d/..f'' = (''dir.d/..f'', [])"
  "splitext ''x.'' = (''x'', ''.'')"
  by code_simp+

lemma table_ext_txt: "table_ext (raw_request b [(''x-file-name'', ''notes.txt'')]) = ''.txt''"
  by code_simp

lemma table_ext_upper: "table_ext (raw_request b [(''x-file-name'', ''DATA.CSV'')]) = ''.csv''"
  by code_simp

lemma table_ext_default:
  "map_of (req_headers request) ''x-file-name'' = None \<Longrightarrow> table_ext request = ''.csv''"
  unfolding table_ext_def headers_get_def by (simp, code_simp)

section \<open>Error results and the HTTP status\<close>

text \<open>
  Whatever the message, the error value of a handler is a tuple, and it is delivered as
  a JSON array under the status 200.
\<close>

lemma deliver_error_result:
  "deliver (error_result msg) =
     \<lparr>status_code = 200, body = PList [PDict [(''error'', PStr msg)], PInt 500]\<rparr>"
  by (simp add: deliver_def error_result_def)

text \<open>No handler lets an exception escape, and what it returns is a dictionary or the
  error tuple.\<close>

lemma dict_or_error_tupleI:
  "dict_or_error_tuple (Inr (error_result msg))" "dict_or_error_tuple (Inr (PDict d))"
  by (auto simp: dict_or_error_tuple_def)

lemma result_health: "dict_or_error_tuple (fst (health w))"
  by (simp add: health_def io_defs dict_or_error_tupleI)

lemma result_ner: "dict_or_error_tuple (fst (ner env g req w))"
  by (simp add: ner_def io_defs dict_or_error_tupleI split: sum.splits)

lemma result_sentiment: "dict_or_error_tuple (fst (sentiment env g req w))"
  by (simp add: sentiment_def io_defs dict_or_error_tupleI split: sum.splits)

lemma result_summarize: "dict_or_error_tuple (fst (summarize env g req w))"
  by (simp add: summarize_def io_defs dict_or_error_tupleI split: sum.splits)

lemma result_intent: "dict_or_error_tuple (fst (intent env g req w))"
  by (simp add: intent_def io_defs dict_or_error_tupleI split: sum.splits)

lemma result_keywords: "dict_or_error_tuple (fst (keywords_handler env g req w))"
  by (simp add: keywords_handler_def io_defs dict_or_error_tupleI split: sum.splits)

lemma result_coref: "dict_or_error_tuple (fst (coref env g req w))"
  by (simp add: coref_def io_defs dict_or_error_tupleI split: sum.splits)

lemma result_paraphrase: "dict_or_error_tuple (fst (paraphrase env g req w))"
  by (simp add: paraphrase_def io_defs dict_or_error_tupleI split: sum.splits)

lemma result_entity_linking: "dict_or_error_tuple (fst (entity_linking env g req w))"
  by (simp add: entity_linking_def io_defs dict_or_error_tupleI split: sum.splits)

lemma result_embed: "dict_or_error_tuple (fst (embed env g req w))"
  by (simp add: embed_def io_defs dict_or_error_tupleI split: sum.splits option.splits)

lemma result_extract_pdf: "dict_or_error_tuple (fst (extract_pdf env request w))"
  by (simp add: extract_pdf_def io_defs dict_or_error_tupleI split: sum.splits)

lemma result_ocr_image: "dict_or_error_tuple (fst (ocr_image env request w))"
  by (simp add: ocr_image_def io_defs dict_or_error_tupleI split: sum.splits prod.splits)

lemma result_transcribe_audio: "dict_or_error_tuple (fst (transcribe_audio env request w))"
  by (simp add: transcribe_audio_def io_defs file_defs dict_or_error_tupleI
      split: sum.splits prod.splits option.splits)

lemma result_parse_table: "dict_or_error_tuple (fst (parse_table env request w))"
  by (simp add: parse_table_def io_defs file_defs dict_or_error_tupleI split: sum.splits option.splits)

lemma result_image_embed: "dict_or_error_tuple (fst (image_embed env g request w))"
  by (simp add: image_embed_def io_defs dict_or_error_tupleI split: sum.splits option.splits)

lemma result_audio_embed: "dict_or_error_tuple (fst (audio_embed env g request w))"
  by (simp add: audio_embed_def io_defs file_defs dict_or_error_tupleI
      split: sum.splits option.splits prod.splits)

lemma route_result: "dict_or_error_tuple (fst (route env g r w))"
  by (cases r)
     (simp_all add: result_health result_ner result_sentiment result_summarize result_intent
        result_keywords result_coref result_paraphrase result_entity_linking result_embed
        result_extract_pdf result_ocr_image result_transcribe_audio result_parse_table
        result_image_embed result_audio_embed)

lemma error_result_has_success_status:
  "is_success_status (status_code (deliver (error_result msg)))"
  by (simp add: deliver_def is_success_status_def)

text \<open>
  C1. The claim: whenever a handler produces an error result, the HTTP response has a
  non-2xx status and a body of the shape \<^verbatim>\<open>{"error": <message>}\<close>. The code misses it.
  A \<^verbatim>\<open>POST /table\<close> with the header \<^verbatim>\<open>x-file-name: notes.txt\<close> makes the handler raise and
  catch the unsupported-type error, whatever the libraries do, and a \<^verbatim>\<open>POST /ner\<close> on which
  the pipeline raises makes the handler catch that exception; in both cases the handler
  returns the tuple \<^verbatim>\<open>({"error": <message>}, 500)\<close>. Such a value is delivered under the
  status 200, a success status, and with the array \<^verbatim>\<open>[{"error": <message>}, 500]\<close> as body.
\<close>

theorem error_result_delivered_with_status_200:
  "fst (route env g (POST_table (raw_request b [(''x-file-name'', ''notes.txt'')])) w)
     = Inr (PTuple [PDict [(''error'', PStr ''Unsupported table file type'')], PInt 500])
   \<and> fst (route (failing_pipelines env) g (POST_ner req) w)
     = Inr (PTuple [PDict [(''error'', PStr ''CUDA out of memory'')], PInt 500])
   \<and> deliver (PTuple [PDict [(''error'', PStr msg)], PInt 500])
     = \<lparr>status_code = 200, body = PList [PDict [(''error'', PStr msg)], PInt 500]\<rparr>
   \<and> is_success_status (status_code (deliver (PTuple [PDict [(''error'', PStr msg)], PInt 500])))"
  by (simp add: ner_def parse_table_def io_defs file_defs table_ext_txt ValueError_def
        failing_pipelines_def error_result_def deliver_def is_success_status_def)

section \<open>Temporary files\<close>

text \<open>
  C2. The claim: the temporary file of \<^verbatim>\<open>/transcribe\<close>, \<^verbatim>\<open>/table\<close> and \<^verbatim>\<open>/audio-embed\<close>
  is deleted before the request completes, on every exit path. The code misses the
  failure paths: a \<^verbatim>\<open>POST /table\<close> with the header \<^verbatim>\<open>x-file-name: notes.txt\<close> stages the
  payload, raises the unsupported-type error before \<^verbatim>\<open>os.remove\<close>, and completes with
  the file still on disk.
\<close>

theorem parse_table_unsupported_leaves_temporary_file:
  "route env_ok globals_ok (POST_table (raw_request ''a,b'' [(''x-file-name'', ''notes.txt'')])) initial_world
     = (Inr (error_result ''Unsupported table file type''),
        \<lparr>files = [TmpFile 0 ''.txt'' \<mapsto> ''a,b''], tmp_counter = 1, trace = []\<rparr>)"
  by (simp add: parse_table_def io_defs file_defs table_ext_txt ValueError_def initial_world_def)

text \<open>The same happens whenever the library call on the staged file raises; the file is
  removed only on the path where that call returns.\<close>

lemma transcribe_audio_files:
  "files (snd (transcribe_audio env request w)) =
     (case load env WhisperModel ''base'' of
        Inl e \<Rightarrow> (files w)(TmpFile (tmp_counter w) ''.wav'' \<mapsto> req_body request)
      | Inr model \<Rightarrow>
          (case transcribe env model (req_body request) of
             Inl e \<Rightarrow> (files w)(TmpFile (tmp_counter w) ''.wav'' \<mapsto> req_body request)
           | Inr result \<Rightarrow> (files w)(TmpFile (tmp_counter w) ''.wav'' := None)))"
  by (simp add: transcribe_audio_def io_defs file_defs split: sum.splits)

lemma parse_table_files:
  "files (snd (parse_table env request w)) =
     (case tempfile_refusal env (table_ext request) of
        Some e \<Rightarrow> files w
      | None \<Rightarrow>
          (if (table_ext request = ''.csv'' \<and> \<not> isl (read_csv env (req_body request)))
              \<or> (table_ext request \<in> {''.xls'', ''.xlsx''}
                    \<and> \<not> isl (read_excel env (req_body request)))
           then (files w)(TmpFile (tmp_counter w) (table_ext request) := None)
           else (files w)(TmpFile (tmp_counter w) (table_ext request) \<mapsto> req_body request)))"
  by (auto simp add: parse_table_def io_defs file_defs ValueError_def
      split: sum.splits option.splits)

lemma audio_embed_files:
  "wav2vec2_model g = Some model \<Longrightarrow> wav2vec2_processor g = Some processor \<Longrightarrow>
   files (snd (audio_embed env g request w)) =
     (case sf_read env (req_body request) of
        Inl e \<Rightarrow> (files w)(TmpFile (tmp_counter w) ''.wav'' \<mapsto> req_body request)
      | Inr r \<Rightarrow> (files w)(TmpFile (tmp_counter w) ''.wav'' := None))"
  by (simp add: audio_embed_def io_defs file_defs split: sum.splits prod.splits)

section \<open>Where models are initialised\<close>

text \<open>The initialisations a handler adds to the trace, handler by handler.\<close>

lemma inits_health: "inits (snd (health w)) = inits w"
  by (simp add: health_def io_defs inits_def)

lemma inits_ner: "inits (snd (ner env g req w)) = inits w"
  by (simp add: ner_def io_defs inits_def split: sum.splits)

lemma inits_sentiment: "inits (snd (sentiment env g req w)) = inits w"
  by (simp add: sentiment_def io_defs inits_def split: sum.splits)

lemma inits_summarize: "inits (snd (summarize env g req w)) = inits w"
  by (simp add: summarize_def io_defs inits_def split: sum.splits)

lemma inits_intent: "inits (snd (intent env g req w)) = inits w"
  by (simp add: intent_def io_defs inits_def split: sum.splits)

lemma inits_keywords: "inits (snd (keywords_handler env g req w)) = inits w"
  by (simp add: keywords_handler_def io_defs inits_def split: sum.splits)

lemma inits_coref: "inits (snd (coref env g req w)) = inits w"
  by (simp add: coref_def io_defs inits_def split: sum.splits)

lemma inits_paraphrase: "inits (snd (paraphrase env g req w)) = inits w"
  by (simp add: paraphrase_def io_defs inits_def split: sum.splits)

lemma inits_entity_linking: "inits (snd (entity_linking env g req w)) = inits w"
  by (simp add: entity_linking_def io_defs inits_def split: sum.splits)

lemma inits_embed: "inits (snd (embed env g req w)) = inits w"
  by (simp add: embed_def io_defs inits_def split: sum.splits option.splits)

lemma inits_extract_pdf: "inits (snd (extract_pdf env request w)) = inits w"
  by (simp add: extract_pdf_def io_defs inits_def split: sum.splits)

lemma inits_parse_table: "inits (snd (parse_table env request w)) = inits w"
  by (simp add: parse_table_def io_defs inits_def file_defs split: sum.splits option.splits)

lemma inits_image_embed: "inits (snd (image_embed env g request w)) = inits w"
  by (simp add: image_embed_def io_defs inits_def split: sum.splits option.splits)

lemma inits_audio_embed: "inits (snd (audio_embed env g request w)) = inits w"
  by (simp add: audio_embed_def io_defs inits_def file_defs
      split: sum.splits option.splits prod.splits)

lemma inits_transcribe_audio:
  "inits (snd (transcribe_audio env request w)) = inits w @ [Init WhisperModel]"
  by (simp add: transcribe_audio_def io_defs inits_def file_defs
      split: sum.splits option.splits prod.splits)

lemma inits_ocr_image:
  "inits (snd (ocr_image env request w)) =
     inits w @ (case Image_open env (req_body request) of
                  Inl e \<Rightarrow> []
                | Inr img \<Rightarrow>
                    (case image_to_string env img of Inl e \<Rightarrow> [Init EasyocrReader] | Inr t \<Rightarrow> []))"
  by (simp add: ocr_image_def io_defs inits_def split: sum.splits option.splits prod.splits)

lemma startup_inits_distinct: "distinct (inits (snd (startup env initial_world)))"
  by (simp add: startup_def load_pair_def io_defs initial_world_def inits_def
      split: sum.splits prod.splits)

lemma startup_env_ok:
  "startup env_ok initial_world =
     (Inr globals_ok,
      \<lparr>files = Map.empty, tmp_counter = 0,
       trace = [Init NerPipeline, Init SentimentPipeline, Init Summarizer, Init ParaphrasePipeline,
                Init IntentPipeline, Init SpacyTrf, Init KwExtractor, Init Embedder,
                Init ClipModel, Init ClipProcessor, Init Wav2Vec2Model, Init Wav2Vec2Processor]\<rparr>)"
  by (simp add: startup_def load_pair_def io_defs env_ok_def globals_ok_def initial_world_def)

text \<open>
  C3, as the spec states it: model initialisation happens at most once per process
  lifetime, during start-up, and no request handler initialises a model. It fails on
  \<^verbatim>\<open>/transcribe\<close>: after a start-up in which everything has loaded, one request makes the
  handler load the Whisper model and then call it.
\<close>

theorem transcribe_audio_loads_model_on_request:
  "trace (snd (route env_ok globals_ok (POST_transcribe (raw_request ''RIFF'' []))
                 (snd (startup env_ok initial_world))))
     = trace (snd (startup env_ok initial_world)) @ [Init WhisperModel, Invoke WhisperModel]"
  unfolding startup_env_ok
  by (simp add: transcribe_audio_def io_defs file_defs py_defs env_ok_def)

text \<open>
  C3, amended: the start-up initialises each of its models at most once; a request to any
  route other than \<^verbatim>\<open>/transcribe\<close> and \<^verbatim>\<open>/ocr\<close> initialises nothing; every request to
  \<^verbatim>\<open>/transcribe\<close> loads the Whisper model once; a request to \<^verbatim>\<open>/ocr\<close> constructs an
  EasyOCR reader exactly when the image opens and the primary engine raises.
\<close>

theorem model_initialisation_sites:
  "distinct (inits (snd (startup env0 initial_world)))
   \<and> (r \<notin> range POST_transcribe \<and> r \<notin> range POST_ocr \<longrightarrow> inits (snd (route env g r w)) = inits w)
   \<and> inits (snd (route env g (POST_transcribe request) w)) = inits w @ [Init WhisperModel]
   \<and> inits (snd (route env g (POST_ocr request) w)) =
       inits w @ (case Image_open env (req_body request) of
                    Inl e \<Rightarrow> []
                  | Inr img \<Rightarrow>
                      (case image_to_string env img of Inl e \<Rightarrow> [Init EasyocrReader] | Inr t \<Rightarrow> []))"
proof (intro conjI impI)
  show "distinct (inits (snd (startup env0 initial_world)))"
    by (rule startup_inits_distinct)
next
  assume "r \<notin> range POST_transcribe \<and> r \<notin> range POST_ocr"
  then show "inits (snd (route env g r w)) = inits w"
    by (cases r)
       (simp_all add: inits_health inits_ner inits_sentiment inits_summarize inits_intent
          inits_keywords inits_coref inits_paraphrase inits_entity_linking inits_embed
          inits_extract_pdf inits_parse_table inits_image_embed inits_audio_embed)
next
  show "inits (snd (route env g (POST_transcribe request) w)) = inits w @ [Init WhisperModel]"
    by (simp add: inits_transcribe_audio)
next
  show "inits (snd (route env g (POST_ocr request) w)) =
       inits w @ (case Image_open env (req_body request) of
                    Inl e \<Rightarrow> []
                  | Inr img \<Rightarrow>
                      (case image_to_string env img of Inl e \<Rightarrow> [Init EasyocrReader] | Inr t \<Rightarrow> []))"
    by (simp add: inits_ocr_image)
qed

theorem model_initialisation_sites_witness:
  "POST_ner (text_request ''hi'' None) \<notin> range POST_transcribe
   \<and> POST_ner (text_request ''hi'' None) \<notin> range POST_ocr
   \<and> inits (snd (route env_ok globals_ok (POST_ner (text_request ''hi'' None)) initial_world)) = []
   \<and> inits (snd (route env_ok globals_ok (POST_transcribe (raw_request ''RIFF'' [])) initial_world))
       = [Init WhisperModel]"
  using model_initialisation_sites[of env_ok "POST_ner (text_request ''hi'' None)" env_ok globals_ok
          initial_world "raw_request ''RIFF'' []"]
  by (auto simp add: inits_def initial_world_def)

section \<open>Handles that failed to load\<close>

lemma startup_optional_handles:
  assumes "fst (startup env w) = Inr g"
  shows "embedder g = (case load env Embedder ''all-MiniLM-L6-v2'' of Inl e \<Rightarrow> None | Inr h \<Rightarrow> Some h)"
    and "isl (load env ClipModel ''openai/clip-vit-base-patch16'')
           \<or> isl (load env ClipProcessor ''openai/clip-vit-base-patch16'')
         \<Longrightarrow> clip_model g = None \<and> clip_processor g = None"
    and "isl (load env Wav2Vec2Model ''facebook/wav2vec2-base-960h'')
           \<or> isl (load env Wav2Vec2Processor ''facebook/wav2vec2-base-960h'')
         \<Longrightarrow> wav2vec2_model g = None \<and> wav2vec2_processor g = None"
  using assms
  by (auto simp add: startup_def load_pair_def io_defs split: sum.splits prod.splits)

text \<open>
  C4, as the spec states it: for every capability whose handle failed to load at
  start-up, every request to its endpoint returns an error identifying the capability as
  unloaded. It fails for the spaCy handle: when \<^verbatim>\<open>spacy.load("en_core_web_trf")\<close> raises,
  the start-up goes on with the blank English pipeline, and \<^verbatim>\<open>/entity-linking\<close> and
  \<^verbatim>\<open>/coref\<close> answer with their success shapes.
\<close>

theorem spacy_load_failure_is_served_as_success:
  "fst (startup (failing_loads {SpacyTrf} env_ok) initial_world)
     = Inr (globals_ok\<lparr>nlp_spacy := Handle SpacyBlank ''en''\<rparr>)
   \<and> fst (route env_ok (globals_ok\<lparr>nlp_spacy := Handle SpacyBlank ''en''\<rparr>)
             (POST_entity_linking (text_request ''Paris on Monday'' None))
             (snd (startup (failing_loads {SpacyTrf} env_ok) initial_world)))
     = Inr (PDict [(''entities'', PList [])])
   \<and> fst (route env_ok (globals_ok\<lparr>nlp_spacy := Handle SpacyBlank ''en''\<rparr>)
             (POST_coref (text_request ''Paris on Monday'' None))
             (snd (startup (failing_loads {SpacyTrf} env_ok) initial_world)))
     = Inr (PDict [(''resolved_text'', PStr ''Paris on Monday''), (''clusters'', PList [])])"
  by (simp add: startup_def load_pair_def io_defs failing_loads_def env_ok_def globals_ok_def
      initial_world_def entity_linking_def coref_def example_doc_def)

text \<open>
  C4, amended: when the start-up has completed and the load of the sentence embedder, of
  the CLIP model or processor, or of the Wav2Vec2 model or processor raised, every request
  to \<^verbatim>\<open>/embed\<close>, \<^verbatim>\<open>/image-embed\<close> or \<^verbatim>\<open>/audio-embed\<close> respectively returns the error result that
  names the model as not loaded, without raising and without calling anything (the world,
  with its trace of calls and its files, is unchanged).
\<close>

theorem unloaded_handle_fails_fast:
  assumes "fst (startup env0 w0) = Inr g"
  shows "(isl (load env0 Embedder ''all-MiniLM-L6-v2'') \<longrightarrow>
            embed env g req w = (Inr (error_result ''Embedding model not loaded''), w))
       \<and> (isl (load env0 ClipModel ''openai/clip-vit-base-patch16'')
            \<or> isl (load env0 ClipProcessor ''openai/clip-vit-base-patch16'') \<longrightarrow>
            image_embed env g request w = (Inr (error_result ''CLIP model not loaded''), w))
       \<and> (isl (load env0 Wav2Vec2Model ''facebook/wav2vec2-base-960h'')
            \<or> isl (load env0 Wav2Vec2Processor ''facebook/wav2vec2-base-960h'') \<longrightarrow>
            audio_embed env g request w = (Inr (error_result ''Wav2Vec2 model not loaded''), w))"
proof (intro conjI impI)
  assume "isl (load env0 Embedder ''all-MiniLM-L6-v2'')"
  then have "embedder g = None"
    using startup_optional_handles(1)[OF assms] by (auto split: sum.splits)
  then show "embed env g req w = (Inr (error_result ''Embedding model not loaded''), w)"
    by (simp add: embed_def io_return_def)
next
  assume "isl (load env0 ClipModel ''openai/clip-vit-base-patch16'')
            \<or> isl (load env0 ClipProcessor ''openai/clip-vit-base-patch16'')"
  from startup_optional_handles(2)[OF assms this]
  show "image_embed env g request w = (Inr (error_result ''CLIP model not loaded''), w)"
    by (simp add: image_embed_def io_return_def)
next
  assume "isl (load env0 Wav2Vec2Model ''facebook/wav2vec2-base-960h'')
            \<or> isl (load env0 Wav2Vec2Processor ''facebook/wav2vec2-base-960h'')"
  from startup_optional_handles(3)[OF assms this]
  show "audio_embed env g request w = (Inr (error_result ''Wav2Vec2 model not loaded''), w)"
    by (simp add: audio_embed_def io_return_def)
qed

lemma startup_without_embedder:
  "fst (startup (failing_loads {Embedder, ClipProcessor} env_ok) initial_world)
     = Inr (globals_ok\<lparr>embedder := None, clip_model := None, clip_processor := None\<rparr>)"
  by (simp add: startup_def load_pair_def io_defs failing_loads_def env_ok_def globals_ok_def
      initial_world_def)

theorem unloaded_handle_fails_fast_witness:
  "fst (startup (failing_loads {Embedder, ClipProcessor} env_ok) initial_world)
     = Inr (globals_ok\<lparr>embedder := None, clip_model := None, clip_processor := None\<rparr>)
   \<and> isl (load (failing_loads {Embedder, ClipProcessor} env_ok) Embedder ''all-MiniLM-L6-v2'')
   \<and> isl (load (failing_loads {Embedder, ClipProcessor} env_ok) ClipProcessor ''openai/clip-vit-base-patch16'')
   \<and> embed env_ok (globals_ok\<lparr>embedder := None, clip_model := None, clip_processor := None\<rparr>)
        \<lparr>texts = [''hello'']\<rparr> initial_world
      = (Inr (error_result ''Embedding model not loaded''), initial_world)
   \<and> image_embed env_ok (globals_ok\<lparr>embedder := None, clip_model := None, clip_processor := None\<rparr>)
        (raw_request ''PNG'' []) initial_world
      = (Inr (error_result ''CLIP model not loaded''), initial_world)"
  using unloaded_handle_fails_fast[OF startup_without_embedder,
          of env_ok "\<lparr>texts = [''hello'']\<rparr>" initial_world "raw_request ''PNG'' []"]
        startup_without_embedder
  by (simp add: failing_loads_def)

section \<open>The OCR fallback\<close>

text \<open>
  C5, as the spec states it: if the primary OCR engine raises, the handler still returns
  a success response through the secondary engine. It fails when the secondary engine
  raises as well, here already when the EasyOCR reader is constructed: the handler
  returns the error result.
\<close>

theorem ocr_fallback_failure_returns_error:
  "fst (route (failing_loads {EasyocrReader} (failing_tesseract env_ok)) globals_ok
          (POST_ocr (raw_request ''PNG'' [])) initial_world)
     = Inr (error_result ''cannot load the model'')"
  by (simp add: ocr_image_def io_defs failing_loads_def failing_tesseract_def env_ok_def)

text \<open>
  C5, amended: for an image that opens, if the primary engine returns a text, the
  response is a success with that text and \<^verbatim>\<open>ocr_method\<close> \<^verbatim>\<open>"pytesseract"\<close>; if the primary
  engine raises, the handler constructs the secondary engine and calls it, and when both
  steps succeed the response is a success with the space-joined texts of the secondary
  engine and \<^verbatim>\<open>ocr_method\<close> \<^verbatim>\<open>"easyocr"\<close>; when the construction or the call of the
  secondary engine raises, the handler returns the error result with that exception's
  message.
\<close>

theorem ocr_image_engines:
  assumes "Image_open env (req_body request) = Inr img"
  shows "(\<forall>text. image_to_string env img = Inr text \<longrightarrow>
            fst (ocr_image env request w) =
              Inr (PDict [(''text'', PStr text),
                          (''metadata'', PDict [(''ocr_method'', PStr ''pytesseract'')])]))
       \<and> (\<forall>e reader result.
            image_to_string env img = Inl e \<and> load env EasyocrReader ''en'' = Inr reader
              \<and> readtext env reader img = Inr result \<longrightarrow>
            ocr_image env request w =
              (Inr (PDict [(''text'', PStr (join '' '' (map (\<lambda>r. fst (snd r)) result))),
                          (''metadata'', PDict [(''ocr_method'', PStr ''easyocr'')])]),
               w\<lparr>trace := trace w @ [Invoke Pillow, Invoke Pytesseract, Init EasyocrReader,
                                      Invoke (component_of reader)]\<rparr>))
       \<and> (\<forall>e e'.
            image_to_string env img = Inl e \<and>
            (load env EasyocrReader ''en'' = Inl e' \<or>
             (\<exists>reader. load env EasyocrReader ''en'' = Inr reader \<and> readtext env reader img = Inl e')) \<longrightarrow>
            fst (ocr_image env request w) = Inr (error_result (str_exn e')))"
  using assms
  by (auto simp add: ocr_image_def io_defs split: sum.splits)

theorem ocr_image_engines_witness:
  "Image_open (failing_tesseract env_ok) (req_body (raw_request ''PNG'' [])) = Inr (Image ''PNG'' ''L'')
   \<and> image_to_string (failing_tesseract env_ok) (Image ''PNG'' ''L'')
       = Inl (Exception ''tesseract is not installed'')
   \<and> load (failing_tesseract env_ok) EasyocrReader ''en'' = Inr (Handle EasyocrReader ''en'')
   \<and> readtext (failing_tesseract env_ok) (Handle EasyocrReader ''en'') (Image ''PNG'' ''L'')
       = Inr [(PNone, ''scanned'', float_0_5), (PNone, ''text'', float_0_5)]
   \<and> fst (ocr_image (failing_tesseract env_ok) (raw_request ''PNG'' []) initial_world)
       = Inr (PDict [(''text'', PStr ''scanned text''),
                     (''metadata'', PDict [(''ocr_method'', PStr ''easyocr'')])])"
proof -
  have opened: "Image_open (failing_tesseract env_ok) (req_body (raw_request ''PNG'' []))
                  = Inr (Image ''PNG'' ''L'')"
    by (simp add: failing_tesseract_def env_ok_def)
  have rest: "image_to_string (failing_tesseract env_ok) (Image ''PNG'' ''L'')
                = Inl (Exception ''tesseract is not installed'')
              \<and> load (failing_tesseract env_ok) EasyocrReader ''en'' = Inr (Handle EasyocrReader ''en'')
              \<and> readtext (failing_tesseract env_ok) (Handle EasyocrReader ''en'') (Image ''PNG'' ''L'')
                  = Inr [(PNone, ''scanned'', float_0_5), (PNone, ''text'', float_0_5)]"
    by (simp add: failing_tesseract_def env_ok_def)
  from ocr_image_engines[OF opened, of initial_world] rest
  have "ocr_image (failing_tesseract env_ok) (raw_request ''PNG'' []) initial_world =
          (Inr (PDict [(''text'', PStr (join '' '' (map (\<lambda>r. fst (snd r))
                                   [(PNone, ''scanned'', float_0_5), (PNone, ''text'', float_0_5)]))),
                       (''metadata'', PDict [(''ocr_method'', PStr ''easyocr'')])]),
           initial_world\<lparr>trace := trace initial_world @
               [Invoke Pillow, Invoke Pytesseract, Init EasyocrReader,
                Invoke (component_of (Handle EasyocrReader ''en''))]\<rparr>)"
    by blast
  then show ?thesis using opened rest by simp
qed

section \<open>Summaries\<close>

text \<open>
  C7. For every \<^verbatim>\<open>/summarize\<close> request: when \<^verbatim>\<open>type\<close> is \<^verbatim>\<open>"extractive"\<close>, the one library
  call is the keyword extractor's (the summarizer is not invoked) and the summary is its
  keywords, in the order returned, joined by spaces; for every other value of \<^verbatim>\<open>type\<close>,
  also an absent one, the one call is the summarizer's, with \<^verbatim>\<open>max_length=130\<close>,
  \<^verbatim>\<open>min_length=30\<close> and \<^verbatim>\<open>do_sample=False\<close>, and the summary is the \<^verbatim>\<open>summary_text\<close> of its
  first result. In both cases an exception becomes the error result.
\<close>

theorem summarize_variants:
  "(req_type req = Some ''extractive'' \<longrightarrow>
      summarize env g req w =
        (case extract_keywords env (kw_extractor g) (req_text req) of
           Inl e \<Rightarrow> Inr (error_result (str_exn e))
         | Inr kws \<Rightarrow> Inr (PDict [(''summary'', PStr (join '' '' (map fst kws)))]),
         w\<lparr>trace := trace w @ [Invoke (component_of (kw_extractor g))]\<rparr>))
   \<and> (req_type req \<noteq> Some ''extractive'' \<longrightarrow>
      summarize env g req w =
        (case pipeline_call env (summarizer g) (req_text req)
                [(''max_length'', PInt 130), (''min_length'', PInt 30), (''do_sample'', PBool False)] of
           Inl e \<Rightarrow> Inr (error_result (str_exn e))
         | Inr result \<Rightarrow>
             (case result of
                [] \<Rightarrow> Inr (error_result ''list index out of range'')
              | r0 # _ \<Rightarrow>
                  (case map_of r0 ''summary_text'' of
                     None \<Rightarrow> Inr (error_result ([CHR 0x27] @ ''summary_text'' @ [CHR 0x27]))
                   | Some s \<Rightarrow> Inr (PDict [(''summary'', s)]))),
         w\<lparr>trace := trace w @ [Invoke (component_of (summarizer g))]\<rparr>))"
  by (simp add: summarize_def io_defs py_defs split: sum.splits list.splits option.splits)

theorem summarize_variants_witness:
  "req_type (text_request ''a long text'' (Some ''extractive'')) = Some ''extractive''
   \<and> summarize env_ok globals_ok (text_request ''a long text'' (Some ''extractive'')) initial_world
       = (Inr (PDict [(''summary'', PStr ''neural network training'')]),
          initial_world\<lparr>trace := [Invoke KwExtractor]\<rparr>)
   \<and> req_type (text_request ''a long text'' None) \<noteq> Some ''extractive''
   \<and> summarize env_ok globals_ok (text_request ''a long text'' None) initial_world
       = (Inr (PDict [(''summary'', PStr ''short'')]), initial_world\<lparr>trace := [Invoke Summarizer]\<rparr>)"
  using summarize_variants[of "text_request ''a long text'' (Some ''extractive'')" env_ok globals_ok
          initial_world]
        summarize_variants[of "text_request ''a long text'' None" env_ok globals_ok initial_world]
  by (simp add: env_ok_def globals_ok_def initial_world_def)

section \<open>Table parsing\<close>

text \<open>
  What the handler does on an extension (the last component of \<^verbatim>\<open>os.path.splitext\<close> of
  the hint, in lower case) other than \<^verbatim>\<open>.csv\<close>, \<^verbatim>\<open>.xls\<close> and \<^verbatim>\<open>.xlsx\<close>: no parser is called
  and no exception escapes; the returned value is the error tuple, with the message of
  the unsupported-type error when the temporary file could be created, and with the
  message of the failed creation otherwise.
\<close>

lemma parse_table_unsupported_outcome:
  assumes "table_ext request \<notin> {''.csv'', ''.xls'', ''.xlsx''}"
  shows "fst (parse_table env request w) =
           Inr (error_result (case tempfile_refusal env (table_ext request) of
                                Some e \<Rightarrow> str_exn e
                              | None \<Rightarrow> ''Unsupported table file type''))"
    and "trace (snd (parse_table env request w)) = trace w"
  using assms
  by (simp_all add: parse_table_def io_defs file_defs ValueError_def split: option.splits)

lemma utf8_length_ascii: "utf8_length (replicate n CHR ''x'') = n"
  by (simp add: utf8_length_def)

lemma tempfile_refusal_over_long:
  "tempfile_refusal env (CHR ''.'' # replicate 250 CHR ''x'')
     = Some (file_name_too_long env (CHR ''.'' # replicate 250 CHR ''x''))"
  by (simp add: tempfile_refusal_def utf8_length_def NAME_MAX_def)

text \<open>
  C8. The claim: for every \<^verbatim>\<open>/table\<close> request whose file-name hint has an extension other
  than \<^verbatim>\<open>.csv\<close>, \<^verbatim>\<open>.xls\<close> or \<^verbatim>\<open>.xlsx\<close>, the handler returns an error envelope
  \<^verbatim>\<open>{"error": <message>}\<close>, the unsupported-type error being caught at the handler boundary.
  The error is caught, but the code misses the envelope, by the defect of C1: for every
  such request the handler returns the tuple \<^verbatim>\<open>({"error": <message>}, 500)\<close> (the message
  is that of the unsupported-type error whenever the temporary file could be created),
  and that value is delivered under the status 200 with the array
  \<^verbatim>\<open>[{"error": <message>}, 500]\<close> as body, which is not a dictionary.
\<close>

theorem unsupported_extension_error_is_not_an_envelope:
  assumes "table_ext request \<notin> {''.csv'', ''.xls'', ''.xlsx''}"
  shows "\<exists>msg. fst (parse_table env request w) = Inr (PTuple [PDict [(''error'', PStr msg)], PInt 500])
           \<and> (tempfile_refusal env (table_ext request) = None \<longrightarrow> msg = ''Unsupported table file type'')
           \<and> deliver (PTuple [PDict [(''error'', PStr msg)], PInt 500])
               = \<lparr>status_code = 200, body = PList [PDict [(''error'', PStr msg)], PInt 500]\<rparr>
           \<and> body (deliver (PTuple [PDict [(''error'', PStr msg)], PInt 500]))
               \<noteq> PDict [(''error'', PStr msg)]"
proof -
  let ?msg = "case tempfile_refusal env (table_ext request) of
                Some e \<Rightarrow> str_exn e
              | None \<Rightarrow> ''Unsupported table file type''"
  have returned: "fst (parse_table env request w) = Inr (PTuple [PDict [(''error'', PStr ?msg)], PInt 500])"
    using parse_table_unsupported_outcome(1)[OF assms, of env w] by (simp add: error_result_def)
  have message: "tempfile_refusal env (table_ext request) = None \<longrightarrow> ?msg = ''Unsupported table file type''"
    by simp
  have delivered: "deliver (PTuple [PDict [(''error'', PStr ?msg)], PInt 500])
               = \<lparr>status_code = 200, body = PList [PDict [(''error'', PStr ?msg)], PInt 500]\<rparr>"
    by (simp add: deliver_def)
  have no_dict: "body (deliver (PTuple [PDict [(''error'', PStr ?msg)], PInt 500]))
               \<noteq> PDict [(''error'', PStr ?msg)]"
    by (simp add: deliver_def)
  show ?thesis
    by (rule exI[where x = "?msg"]) (intro conjI returned message delivered no_dict)
qed

theorem unsupported_extension_error_is_not_an_envelope_witness:
  "table_ext (raw_request ''a,b'' [(''x-file-name'', ''notes.txt'')]) \<notin> {''.csv'', ''.xls'', ''.xlsx''}
   \<and> tempfile_refusal env_ok (table_ext (raw_request ''a,b'' [(''x-file-name'', ''notes.txt'')])) = None
   \<and> fst (parse_table env_ok (raw_request ''a,b'' [(''x-file-name'', ''notes.txt'')]) initial_world)
       = Inr (PTuple [PDict [(''error'', PStr ''Unsupported table file type'')], PInt 500])
   \<and> deliver (PTuple [PDict [(''error'', PStr ''Unsupported table file type'')], PInt 500])
       = \<lparr>status_code = 200,
          body = PList [PDict [(''error'', PStr ''Unsupported table file type'')], PInt 500]\<rparr>"
proof -
  have ext: "table_ext (raw_request ''a,b'' [(''x-file-name'', ''notes.txt'')])
               \<notin> {''.csv'', ''.xls'', ''.xlsx''}"
    by (simp add: table_ext_txt)
  have created: "tempfile_refusal env_ok (table_ext (raw_request ''a,b'' [(''x-file-name'', ''notes.txt'')]))
                   = None"
    by (simp add: table_ext_txt)
  from unsupported_extension_error_is_not_an_envelope[OF ext, of env_ok initial_world] created
  have "fst (parse_table env_ok (raw_request ''a,b'' [(''x-file-name'', ''notes.txt'')]) initial_world)
          = Inr (PTuple [PDict [(''error'', PStr ''Unsupported table file type'')], PInt 500])"
    by auto
  with ext created show ?thesis by (simp add: deliver_def)
qed

text \<open>
  C10. For every \<^verbatim>\<open>/table\<close> request without an \<^verbatim>\<open>x-file-name\<close> header, the file-name hint
  is \<^verbatim>\<open>table.csv\<close>, so the extension is \<^verbatim>\<open>.csv\<close> and the payload is handed to the CSV
  parser: the outcome is the parser's (its data frame as the success value, or its
  exception as the error result), never the unsupported-type error.
\<close>

theorem parse_table_default_file_name:
  assumes "map_of (req_headers request) ''x-file-name'' = None"
  shows "table_ext request = ''.csv'' \<and>
         parse_table env request w =
           (case read_csv env (req_body request) of
              Inl e \<Rightarrow>
                (Inr (error_result (str_exn e)),
                 w\<lparr>files := (files w)(TmpFile (tmp_counter w) ''.csv'' \<mapsto> req_body request),
                   tmp_counter := Suc (tmp_counter w),
                   trace := trace w @ [Invoke PandasCsv]\<rparr>)
            | Inr df \<Rightarrow>
                (Inr (PDict [(''text'', PStr (to_csv df)),
                             (''metadata'', PDict [(''columns'', PList (columns df)),
                                                   (''rows'', PInt (int (len_df df)))])]),
                 w\<lparr>files := (files w)(TmpFile (tmp_counter w) ''.csv'' := None),
                   tmp_counter := Suc (tmp_counter w),
                   trace := trace w @ [Invoke PandasCsv]\<rparr>))"
  using table_ext_default[OF assms]
  by (simp add: parse_table_def io_defs file_defs split: sum.splits)

theorem parse_table_default_file_name_witness:
  "map_of (req_headers (raw_request ''a,b'' [(''content-type'', ''text/csv'')])) ''x-file-name'' = None
   \<and> parse_table env_ok (raw_request ''a,b'' [(''content-type'', ''text/csv'')]) initial_world
       = (Inr (PDict [(''text'', PStr ''a,b''),
                      (''metadata'', PDict [(''columns'', PList [PStr ''a'', PStr ''b'']),
                                            (''rows'', PInt 1)])]),
          \<lparr>files = Map.empty, tmp_counter = 1, trace = [Invoke PandasCsv]\<rparr>)"
proof -
  have absent: "map_of (req_headers (raw_request ''a,b'' [(''content-type'', ''text/csv'')]))
                  ''x-file-name'' = None"
    by simp
  from parse_table_default_file_name[OF absent, of env_ok initial_world] absent
  show ?thesis by (simp add: env_ok_def initial_world_def)
qed

section \<open>Entity linking\<close>

text \<open>The loop: it returns every entity's dictionary when no conversion raises, and the
  first exception otherwise.\<close>

lemma link_entities_all_ok:
  "\<forall>ent\<in>set es. \<not> isl (link_entity env ent) \<Longrightarrow>
   link_entities env es acc = Inr (acc @ map (\<lambda>ent. projr (link_entity env ent)) es)"
proof (induction es arbitrary: acc)
  case Nil
  then show ?case by simp
next
  case (Cons ent rest)
  then obtain d where d: "link_entity env ent = Inr d"
    by (cases "link_entity env ent") auto
  with Cons show ?case by simp
qed

lemma link_entities_some_fail:
  "\<exists>ent\<in>set es. isl (link_entity env ent) \<Longrightarrow>
   \<exists>ent\<in>set es. isl (link_entity env ent) \<and>
      link_entities env es acc = Inl (projl (link_entity env ent))"
proof (induction es arbitrary: acc)
  case Nil
  then show ?case by simp
next
  case (Cons ent rest)
  show ?case
  proof (cases "link_entity env ent")
    case (Inl e)
    then show ?thesis by simp
  next
    case (Inr d)
    with Cons.prems have "\<exists>x\<in>set rest. isl (link_entity env x)" by auto
    from Cons.IH[OF this, of "acc @ [d]"] Inr show ?thesis by auto
  qed
qed

lemma link_entity_isl:
  "isl (link_entity env ent) \<longleftrightarrow>
     (\<exists>k. ent_kb_id ent = Some k \<and> k \<noteq> [] \<and> isl (py_float env (PStr k)))"
  by (auto simp: link_entity_def Let_def split: option.splits sum.splits)

lemma link_entity_projl:
  "ent_kb_id ent = Some k \<Longrightarrow> k \<noteq> [] \<Longrightarrow> isl (py_float env (PStr k)) \<Longrightarrow>
   projl (link_entity env ent) = projl (py_float env (PStr k))"
  by (auto simp: link_entity_def Let_def split: option.splits sum.splits)

lemma link_entity_projr:
  "\<not> isl (link_entity env ent) \<Longrightarrow>
   projr (link_entity env ent) =
     PDict [(''mention'', PStr (ent_text ent)),
            (''entity_id'', PStr (case ent_kb_id ent of Some k \<Rightarrow> k | None \<Rightarrow> [])),
            (''entity_label'', PStr (ent_label ent)),
            (''confidence'',
             PFloat (case ent_kb_id ent of
                       Some k \<Rightarrow> if k \<noteq> [] then projr (py_float env (PStr k)) else float_1_0
                     | None \<Rightarrow> float_1_0))]"
  by (auto simp: link_entity_def Let_def split: option.splits sum.splits)

text \<open>
  C9. The claim: for every \<^verbatim>\<open>/entity-linking\<close> request in which some recognised entity has
  a non-empty knowledge-base id, the reported confidence of that entity is \<^verbatim>\<open>float\<close> of the
  id; consequently, if the id of some linked entity is not a numeric string, the request
  returns an error envelope instead of the entity list. The first part holds: when the
  parser returns a document and \<^verbatim>\<open>float\<close> accepts every non-empty id, the entity list
  carries its results as confidences (and 1.0 for an entity without an id). In the second
  part the entity list is indeed replaced by an error, but the code misses the envelope,
  by the defect of C1: when \<^verbatim>\<open>float\<close> raises on some id, the handler returns the tuple
  \<^verbatim>\<open>({"error": <message of that exception>}, 500)\<close>, which is delivered under the status
  200 with the array \<^verbatim>\<open>[{"error": <message>}, 500]\<close> as body.
\<close>

theorem entity_linking_confidence_and_error_delivery:
  assumes "nlp_call env (nlp_spacy g) (req_text req) = Inr doc"
  shows "((\<forall>ent\<in>set (ents doc). \<forall>k. ent_kb_id ent = Some k \<and> k \<noteq> [] \<longrightarrow>
              \<not> isl (py_float env (PStr k))) \<longrightarrow>
            fst (entity_linking env g req w) =
              Inr (PDict [(''entities'', PList (map (\<lambda>ent.
                   PDict [(''mention'', PStr (ent_text ent)),
                          (''entity_id'', PStr (case ent_kb_id ent of Some k \<Rightarrow> k | None \<Rightarrow> [])),
                          (''entity_label'', PStr (ent_label ent)),
                          (''confidence'',
                           PFloat (case ent_kb_id ent of
                                     Some k \<Rightarrow> if k \<noteq> [] then projr (py_float env (PStr k))
                                               else float_1_0
                                   | None \<Rightarrow> float_1_0))]) (ents doc)))]))
       \<and> ((\<exists>ent\<in>set (ents doc). \<exists>k. ent_kb_id ent = Some k \<and> k \<noteq> [] \<and> isl (py_float env (PStr k))) \<longrightarrow>
            (\<exists>ent\<in>set (ents doc). \<exists>k. ent_kb_id ent = Some k \<and> k \<noteq> [] \<and> isl (py_float env (PStr k)) \<and>
               fst (entity_linking env g req w) =
                 Inr (PTuple [PDict [(''error'', PStr (str_exn (projl (py_float env (PStr k)))))],
                              PInt 500]) \<and>
               deliver (PTuple [PDict [(''error'', PStr (str_exn (projl (py_float env (PStr k)))))],
                                PInt 500]) =
                 \<lparr>status_code = 200,
                  body = PList [PDict [(''error'', PStr (str_exn (projl (py_float env (PStr k)))))],
                                PInt 500]\<rparr>))"
proof (intro conjI impI)
  let ?entry = "\<lambda>ent.
                   PDict [(''mention'', PStr (ent_text ent)),
                          (''entity_id'', PStr (case ent_kb_id ent of Some k \<Rightarrow> k | None \<Rightarrow> [])),
                          (''entity_label'', PStr (ent_label ent)),
                          (''confidence'',
                           PFloat (case ent_kb_id ent of
                                     Some k \<Rightarrow> if k \<noteq> [] then projr (py_float env (PStr k))
                                               else float_1_0
                                   | None \<Rightarrow> float_1_0))]"
  assume "\<forall>ent\<in>set (ents doc). \<forall>k. ent_kb_id ent = Some k \<and> k \<noteq> [] \<longrightarrow>
              \<not> isl (py_float env (PStr k))"
  then have all: "\<forall>ent\<in>set (ents doc). \<not> isl (link_entity env ent)"
    by (auto simp: link_entity_isl)
  have "link_entities env (ents doc) [] = Inr (map (\<lambda>ent. projr (link_entity env ent)) (ents doc))"
    using link_entities_all_ok[OF all, of "[]"] by simp
  moreover have "map (\<lambda>ent. projr (link_entity env ent)) (ents doc) = map ?entry (ents doc)"
    using all by (intro map_cong refl link_entity_projr) auto
  ultimately show "fst (entity_linking env g req w) = Inr (PDict [(''entities'', PList (map ?entry (ents doc)))])"
    using assms by (simp add: entity_linking_def io_defs)
next
  assume "\<exists>ent\<in>set (ents doc). \<exists>k. ent_kb_id ent = Some k \<and> k \<noteq> [] \<and> isl (py_float env (PStr k))"
  then have "\<exists>ent\<in>set (ents doc). isl (link_entity env ent)"
    by (auto simp: link_entity_isl)
  from link_entities_some_fail[OF this, of "[]"]
  obtain ent where ent: "ent \<in> set (ents doc)" "isl (link_entity env ent)"
    and res: "link_entities env (ents doc) [] = Inl (projl (link_entity env ent))"
    by blast
  from ent(2) obtain k where k: "ent_kb_id ent = Some k" "k \<noteq> []" "isl (py_float env (PStr k))"
    by (auto simp: link_entity_isl)
  have "fst (entity_linking env g req w) =
          Inr (PTuple [PDict [(''error'', PStr (str_exn (projl (py_float env (PStr k)))))], PInt 500])"
    using assms res link_entity_projl[OF k]
    by (simp add: entity_linking_def io_defs error_result_def)
  moreover have "deliver (PTuple [PDict [(''error'', PStr (str_exn (projl (py_float env (PStr k)))))],
                                PInt 500]) =
                 \<lparr>status_code = 200,
                  body = PList [PDict [(''error'', PStr (str_exn (projl (py_float env (PStr k)))))],
                                PInt 500]\<rparr>"
    by (simp add: deliver_def)
  ultimately
  show "\<exists>ent\<in>set (ents doc). \<exists>k. ent_kb_id ent = Some k \<and> k \<noteq> [] \<and> isl (py_float env (PStr k)) \<and>
               fst (entity_linking env g req w) =
                 Inr (PTuple [PDict [(''error'', PStr (str_exn (projl (py_float env (PStr k)))))],
                              PInt 500]) \<and>
               deliver (PTuple [PDict [(''error'', PStr (str_exn (projl (py_float env (PStr k)))))],
                                PInt 500]) =
                 \<lparr>status_code = 200,
                  body = PList [PDict [(''error'', PStr (str_exn (projl (py_float env (PStr k)))))],
                                PInt 500]\<rparr>"
    using ent(1) k by blast
qed

lemma example_doc_Berlin:
  "nlp_call env_ok (nlp_spacy globals_ok) (req_text (text_request ''Berlin'' None))
     = Inr \<lparr>ents = [\<lparr>ent_text = ''Berlin'', ent_label = ''GPE'', ent_kb_id = Some ''Q64''\<rparr>],
            coref_resolved = None, coref_clusters = None\<rparr>"
  by (simp add: env_ok_def globals_ok_def example_doc_def)

lemma example_doc_Paris:
  "nlp_call env_ok (nlp_spacy globals_ok) (req_text (text_request ''Paris on Monday'' None))
     = Inr \<lparr>ents = [\<lparr>ent_text = ''Paris'', ent_label = ''GPE'', ent_kb_id = Some ''0.5''\<rparr>,
                    \<lparr>ent_text = ''Monday'', ent_label = ''DATE'', ent_kb_id = Some []\<rparr>],
            coref_resolved = None, coref_clusters = None\<rparr>"
  by (simp add: env_ok_def globals_ok_def example_doc_def)

lemma example_float_values:
  "py_float env_ok (PStr ''0.5'') = Inr float_0_5"
  "py_float env_ok (PStr ''Q64'')
     = Inl (Exception (''could not convert string to float: '' @ [CHR 0x27] @ ''Q64'' @ [CHR 0x27]))"
  by (simp_all add: env_ok_def example_float_def ValueError_def)

theorem entity_linking_confidence_and_error_delivery_witness:
  "nlp_call env_ok (nlp_spacy globals_ok) (req_text (text_request ''Paris on Monday'' None))
     = Inr \<lparr>ents = [\<lparr>ent_text = ''Paris'', ent_label = ''GPE'', ent_kb_id = Some ''0.5''\<rparr>,
                    \<lparr>ent_text = ''Monday'', ent_label = ''DATE'', ent_kb_id = Some []\<rparr>],
            coref_resolved = None, coref_clusters = None\<rparr>
   \<and> fst (entity_linking env_ok globals_ok (text_request ''Paris on Monday'' None) initial_world)
     = Inr (PDict [(''entities'', PList
              [PDict [(''mention'', PStr ''Paris''), (''entity_id'', PStr ''0.5''),
                      (''entity_label'', PStr ''GPE''), (''confidence'', PFloat float_0_5)],
               PDict [(''mention'', PStr ''Monday''), (''entity_id'', PStr []),
                      (''entity_label'', PStr ''DATE''), (''confidence'', PFloat float_1_0)]])])
   \<and> nlp_call env_ok (nlp_spacy globals_ok) (req_text (text_request ''Berlin'' None))
     = Inr \<lparr>ents = [\<lparr>ent_text = ''Berlin'', ent_label = ''GPE'', ent_kb_id = Some ''Q64''\<rparr>],
            coref_resolved = None, coref_clusters = None\<rparr>
   \<and> isl (py_float env_ok (PStr ''Q64''))
   \<and> fst (entity_linking env_ok globals_ok (text_request ''Berlin'' None) initial_world)
     = Inr (PTuple [PDict [(''error'',
                            PStr (''could not convert string to float: '' @ [CHR 0x27] @ ''Q64'' @ [CHR 0x27]))],
                    PInt 500])
   \<and> deliver (PTuple [PDict [(''error'',
                            PStr (''could not convert string to float: '' @ [CHR 0x27] @ ''Q64'' @ [CHR 0x27]))],
                    PInt 500])
     = \<lparr>status_code = 200,
        body = PList [PDict [(''error'',
                              PStr (''could not convert string to float: '' @ [CHR 0x27] @ ''Q64'' @ [CHR 0x27]))],
                      PInt 500]\<rparr>"
  using entity_linking_confidence_and_error_delivery[OF example_doc_Paris, of initial_world]
        entity_linking_confidence_and_error_delivery[OF example_doc_Berlin, of initial_world]
        example_doc_Paris example_doc_Berlin
  by (simp add: example_float_values deliver_def)

section \<open>Normalising an embedding\<close>


text \<open>A NaN norm is neither positive nor zero: the guard is false and the features are
  returned as they are.\<close>

lemma nan_not_gt_zero: "float32_is_nan n \<Longrightarrow> \<not> gt_zero n \<and> \<not> float32_is_zero n"
  by (auto simp: gt_zero_def float32_is_zero_def float32_is_nan_def word_less_nat_alt word_le_nat_alt)





lemma example_norms:
  "gt_zero (linalg_norm env_ok example_features)"
  "float32_is_zero (linalg_norm (zero_features env_ok) [0x00000000, 0x00000000])"
  by (simp_all add: env_ok_def zero_features_def example_norm_def example_features_def
        gt_zero_def float32_is_zero_def)


end
